theory Spec2Isabelle
  imports Main "HOL-Library.Word"
begin

section \<open>Types of the lowering layer\<close>

text \<open>
  The module \<^verbatim>\<open>numba/dppl/experimental_numpy_lowering_overload.py\<close> is a code generator:
  each lowering receives a typing signature and the operands of one call site and appends
  instructions to an LLVM builder. The model has two levels. The lowering functions are
  state-passing functions over a \<open>builder\<close> and return \<open>Inl\<close> for a Python exception raised
  while code is generated. The instructions they emit are given a run-time meaning by an
  interpreter further down, which produces the sequence of device-runtime calls.
\<close>

datatype layout = LayoutC | LayoutF | LayoutA

datatype nbtype =
    Array (dtype: nbtype) (ndim: nat) (layout: layout)
  | Scalar string
  | StringLiteral string
  | NoneType

definition intp :: nbtype where "intp = Scalar ''int64''"
definition int64 :: nbtype where "int64 = Scalar ''int64''"

record signature =
  return_type :: nbtype
  sig_args :: "nbtype list"

datatype error =
    ImportError string
  | NameError string
  | UnboundLocalError string
  | ValueError string
  | OverflowError string
  | IndexError string
  | TypeError string
  | AssertionError
  | UnsupportedTypeCombination string "string list"
  | UndefinedBehaviour

text \<open>
  LLVM types: integers by width, \<open>LLPtr\<close> for \<^verbatim>\<open>i8*\<close>, \<open>LLPointer t\<close> for a pointer to \<open>t\<close>
  (what an \<^verbatim>\<open>alloca\<close> of \<open>t\<close> yields), and \<open>LLValue ty\<close> for
  \<^verbatim>\<open>context.get_value_type(ty)\<close>.
\<close>

datatype lltype = LLInt nat | LLPtr | LLVoid | LLValue nbtype | LLPointer lltype

text \<open>The Python functions handed to \<^verbatim>\<open>context.compile_internal\<close>, one name per closure.\<close>

datatype pyfunc =
    Check_c_int_impl
  | Dot_vv_check_args
  | Dot_mm_make_res
  | Dot_mv_make_res
  | Dot_vm_make_res
  | Matmul_make_res
  | Array_size_checker
  | Argsort_make_res
  | Cov_make_1D_res
  | Cov_make_2D_res

datatype operand =
    Reg nat
  | Arg nat
  | Global string
  | Const nbtype int
  | ArrData operand
  | ArrNitems operand
  | ArrDim operand nat

datatype instr =
    Alloca nat lltype
  | Store operand operand
  | Load nat operand
  | Mul nat operand operand
  | Sext nat operand lltype
  | Bitcast nat operand lltype
  | IntToPtr nat operand
  | Call nat string "operand list"
  | CallPtr nat operand "operand list"
  | CallInternal nat pyfunc "operand list"
  | ArrayCopy nat operand
  | Decref operand

text \<open>
  The builder holds the next unused SSA register and the instructions emitted so far.
  \<open>lookups\<close> logs every request made to \<^verbatim>\<open>dpnp_glue.get_dpnp_fn_ptr\<close>, in order.
\<close>

record builder =
  fresh :: nat
  code :: "instr list"
  lookups :: "(string \<times> string list) list"

text \<open>
  What the module takes from its surroundings: whether
  \<^verbatim>\<open>from .dpnp_glue import dpnp_fptr_interface\<close> succeeds, the symbol table behind
  \<^verbatim>\<open>get_dpnp_fn_ptr\<close>, \<^verbatim>\<open>context.get_abi_sizeof(context.get_value_type(ty))\<close>, and
  the \<^verbatim>\<open>name\<close> attribute of an array type.

  Modelled from the spec: \<open>get_dpnp_fn_ptr\<close> lives in the Cython module dpnp_glue; the
  spec (4.4) says resolution yields a callable address or signals an unsupported type
  combination, so the table is a partial function and \<open>None\<close> raises.

  \<open>checks_call_arity\<close> belongs to llvmlite, which is not part of the repository: it says
  whether \<^verbatim>\<open>builder.call\<close> refuses a call that carries more arguments than the function
  type declares (see \<open>check_call_args\<close> below).
\<close>

record lowering_context =
  dpnp_importable :: bool
  get_dpnp_fn_ptr :: "string \<Rightarrow> string list \<Rightarrow> int option"
  abi_sizeof :: "nbtype \<Rightarrow> nat"
  array_name :: "nbtype \<Rightarrow> string"
  checks_call_arity :: bool

fun name :: "lowering_context \<Rightarrow> nbtype \<Rightarrow> string" where
  "name ctx (Scalar n) = n"
| "name ctx ty = array_name ctx ty"

fun get_abi_sizeof :: "lowering_context \<Rightarrow> lltype \<Rightarrow> nat" where
  "get_abi_sizeof ctx (LLInt n) = n div 8"
| "get_abi_sizeof ctx LLPtr = 8"
| "get_abi_sizeof ctx (LLPointer t) = 8"
| "get_abi_sizeof ctx LLVoid = 0"
| "get_abi_sizeof ctx (LLValue ty) = abi_sizeof ctx ty"

definition get_value_type :: "nbtype \<Rightarrow> lltype" where
  "get_value_type ty = LLValue ty"

definition ll_void_p :: lltype where "ll_void_p = LLPtr"
definition ll_void :: lltype where "ll_void = LLVoid"
definition ll_intp_t :: lltype where "ll_intp_t = LLInt 64"
definition void_ptr_t :: lltype where "void_ptr_t = LLPtr"

section \<open>Builder primitives\<close>

definition emit :: "(nat \<Rightarrow> instr) \<Rightarrow> builder \<Rightarrow> operand \<times> builder" where
  "emit mk b = (Reg (fresh b), b\<lparr>fresh := Suc (fresh b), code := code b @ [mk (fresh b)]\<rparr>)"

definition alloca_once :: "lltype \<Rightarrow> builder \<Rightarrow> operand \<times> builder" where
  "alloca_once ty b = emit (\<lambda>r. Alloca r ty) b"

definition store :: "operand \<Rightarrow> operand \<Rightarrow> builder \<Rightarrow> builder" where
  "store v p b = b\<lparr>code := code b @ [Store v p]\<rparr>"

definition load :: "operand \<Rightarrow> builder \<Rightarrow> operand \<times> builder" where
  "load p b = emit (\<lambda>r. Load r p) b"

definition mul :: "operand \<Rightarrow> operand \<Rightarrow> builder \<Rightarrow> operand \<times> builder" where
  "mul x y b = emit (\<lambda>r. Mul r x y) b"

definition sext :: "operand \<Rightarrow> lltype \<Rightarrow> builder \<Rightarrow> operand \<times> builder" where
  "sext x ty b = emit (\<lambda>r. Sext r x ty) b"

definition bitcast :: "operand \<Rightarrow> lltype \<Rightarrow> builder \<Rightarrow> operand \<times> builder" where
  "bitcast x ty b = emit (\<lambda>r. Bitcast r x ty) b"

definition inttoptr :: "operand \<Rightarrow> builder \<Rightarrow> operand \<times> builder" where
  "inttoptr x b = emit (\<lambda>r. IntToPtr r x) b"

definition call :: "string \<Rightarrow> operand list \<Rightarrow> builder \<Rightarrow> operand \<times> builder" where
  "call fn ps b = emit (\<lambda>r. Call r fn ps) b"

definition compile_internal ::
  "pyfunc \<Rightarrow> signature \<Rightarrow> operand list \<Rightarrow> builder \<Rightarrow> operand \<times> builder" where
  "compile_internal impl sg ps b = emit (\<lambda>r. CallInternal r impl ps) b"

definition array_copy :: "signature \<Rightarrow> operand list \<Rightarrow> builder \<Rightarrow> operand \<times> builder" where
  "array_copy copysig ps b = emit (\<lambda>r. ArrayCopy r (hd ps)) b"

definition decref :: "nbtype \<Rightarrow> operand \<Rightarrow> builder \<Rightarrow> builder" where
  "decref ty v b = b\<lparr>code := code b @ [Decref v]\<rparr>"

definition get_constant :: "nbtype \<Rightarrow> int \<Rightarrow> operand" where
  "get_constant ty v = Const ty v"

text \<open>
  Every value the builder makes carries its LLVM type (the \<^verbatim>\<open>type\<close> attribute of an
  llvmlite value). \<open>value_types\<close> reads the types of the registers off the instructions
  that define them, the latest definition first: \<open>Some t\<close> where the instruction fixes
  the type, \<open>None\<close> where it depends on a declaration outside this module (the result
  of a call, of \<^verbatim>\<open>inttoptr\<close>, of a compiled-in Python function) or is a pointer into
  an array (\<open>ArrData\<close>); the module passes none of the latter to a typed call
  directly. Array dimensions and item counts are \<^verbatim>\<open>intp\<close> values; the value type of
  \<^verbatim>\<open>int64\<close> and \<^verbatim>\<open>intp\<close> is the 64-bit integer, which is what \<open>llvm_type\<close>
  records.
\<close>

type_synonym type_table = "(nat \<times> lltype option) list"

fun operand_type :: "type_table \<Rightarrow> operand \<Rightarrow> lltype option" where
  "operand_type env (Reg r) = (case map_of env r of Some t \<Rightarrow> t | None \<Rightarrow> None)"
| "operand_type env (Arg i) = None"
| "operand_type env (Global nm) = None"
| "operand_type env (Const ty v) = Some (get_value_type ty)"
| "operand_type env (ArrData x) = None"
| "operand_type env (ArrNitems x) = Some (LLInt 64)"
| "operand_type env (ArrDim x i) = Some (LLInt 64)"

fun define_type :: "instr \<Rightarrow> type_table \<Rightarrow> type_table" where
  "define_type (Alloca r ty) env = (r, Some (LLPointer ty)) # env"
| "define_type (Load r p) env =
     (r, case operand_type env p of Some (LLPointer t) \<Rightarrow> Some t | _ \<Rightarrow> None) # env"
| "define_type (Mul r x y) env = (r, operand_type env x) # env"
| "define_type (Sext r x ty) env = (r, Some ty) # env"
| "define_type (Bitcast r x ty) env = (r, Some ty) # env"
| "define_type (IntToPtr r x) env = (r, None) # env"
| "define_type (Call r fn ps) env = (r, None) # env"
| "define_type (CallPtr r fp ps) env = (r, None) # env"
| "define_type (CallInternal r f ps) env = (r, None) # env"
| "define_type (ArrayCopy r x) env = (r, None) # env"
| "define_type (Store v p) env = env"
| "define_type (Decref v) env = env"

fun type_env :: "instr list \<Rightarrow> type_table \<Rightarrow> type_table" where
  "type_env [] env = env"
| "type_env (i # is) env = type_env is (define_type i env)"

definition value_types :: "builder \<Rightarrow> type_table" where
  "value_types b = type_env (code b) []"

fun llvm_type :: "lltype \<Rightarrow> lltype" where
  "llvm_type (LLValue ty) = (if ty = Scalar ''int64'' then LLInt 64 else LLValue ty)"
| "llvm_type (LLPointer t) = LLPointer (llvm_type t)"
| "llvm_type t = t"

text \<open>
  \<^verbatim>\<open>ir.FunctionType(ret_ty, param_tys)\<close>, the type under which a resolved address is
  called.
\<close>

record function_type =
  fn_return :: lltype
  fn_args :: "lltype list"

text \<open>
  \<^verbatim>\<open>builder.call(fn_ptr, params)\<close> on a function pointer of that type: llvmlite walks the
  declared parameter types, takes the argument at each position (\<^verbatim>\<open>IndexError\<close> if there
  is none) and raises \<^verbatim>\<open>TypeError\<close> when its type differs from the declared one. The
  arguments beyond the declared parameters are outside that loop, which is how llvmlite
  admits variadic callees; a builder that checks the number of arguments as well refuses
  them, which is what \<open>strict\<close> stands for. Only after the check is the call instruction
  added, with the declared return type as the type of its result.
\<close>

fun check_call_args :: "bool \<Rightarrow> lltype list \<Rightarrow> lltype option list \<Rightarrow> error option" where
  "check_call_args strict [] vs =
     (if strict \<and> vs \<noteq> [] then Some (TypeError ''Too many arguments'') else None)"
| "check_call_args strict (t # ts) [] = Some (IndexError ''list index out of range'')"
| "check_call_args strict (t # ts) (v # vs) =
     (if map_option llvm_type v = Some (llvm_type t) then check_call_args strict ts vs
      else Some (TypeError ''Type of arg mismatch''))"

definition call_ptr ::
  "lowering_context \<Rightarrow> function_type \<Rightarrow> operand \<Rightarrow> operand list \<Rightarrow> builder \<Rightarrow>
   (error + operand) \<times> builder" where
  "call_ptr ctx fnty fp ps b =
     (case check_call_args (checks_call_arity ctx) (fn_args fnty)
             (map (operand_type (value_types b)) ps) of
        Some e \<Rightarrow> (Inl e, b)
      | None \<Rightarrow> (let (r, b') = emit (\<lambda>r. CallPtr r fp ps) b in (Inr r, b')))"

text \<open>
  \<^verbatim>\<open>make_array(aty)(context, builder, val)\<close> is a proxy for the fields of an array value;
  \<^verbatim>\<open>cgutils.unpack_tuple(builder, a.shape)\<close> yields one value per dimension of the type.
\<close>

record array_proxy =
  proxy_ty :: nbtype
  proxy_val :: operand

definition make_array :: "nbtype \<Rightarrow> operand \<Rightarrow> array_proxy" where
  "make_array aty v = \<lparr>proxy_ty = aty, proxy_val = v\<rparr>"

definition data :: "array_proxy \<Rightarrow> operand" where
  "data a = ArrData (proxy_val a)"

definition nitems :: "array_proxy \<Rightarrow> operand" where
  "nitems a = ArrNitems (proxy_val a)"

definition unpack_shape :: "array_proxy \<Rightarrow> operand list" where
  "unpack_shape a = map (ArrDim (proxy_val a)) [0 ..< ndim (proxy_ty a)]"

text \<open>Python's tuple unpacking \<^verbatim>\<open>x, = t\<close> and \<^verbatim>\<open>x, y = t\<close>.\<close>

fun unpack1 :: "'a list \<Rightarrow> error + 'a" where
  "unpack1 [x] = Inr x"
| "unpack1 [] = Inl (ValueError ''not enough values to unpack (expected 1, got 0)'')"
| "unpack1 xs = Inl (ValueError ''too many values to unpack (expected 1)'')"

fun unpack2 :: "'a list \<Rightarrow> error + ('a \<times> 'a)" where
  "unpack2 [x, y] = Inr (x, y)"
| "unpack2 (x # y # zs) = Inl (ValueError ''too many values to unpack (expected 2)'')"
| "unpack2 xs = Inl (ValueError ''not enough values to unpack (expected 2)'')"

text \<open>Python's indexing \<^verbatim>\<open>xs[i]\<close> for a non-negative literal index.\<close>

definition item :: "'a list \<Rightarrow> nat \<Rightarrow> error + 'a" where
  "item xs i = (if i < length xs then Inr (xs ! i) else Inl (IndexError ''index out of range''))"

section \<open>Helpers of the module\<close>

text \<open>
  \<open>make_contiguous\<close> is a generator wrapped by \<^verbatim>\<open>contextlib.contextmanager\<close>. The part
  before \<^verbatim>\<open>yield\<close> runs on entry to the \<^verbatim>\<open>with\<close> block. The part after it runs when
  the block is left normally (also by \<^verbatim>\<open>return\<close>); when the block raises, the exception
  is thrown into the generator at the \<^verbatim>\<open>yield\<close>, where no \<^verbatim>\<open>try\<close> surrounds it, so
  the loop after the \<^verbatim>\<open>yield\<close> does not run.
\<close>

fun make_contiguous_loop ::
  "(nbtype \<times> operand) list \<Rightarrow> builder \<Rightarrow>
   (nbtype list \<times> operand list \<times> (nbtype \<times> operand) list) \<times> builder" where
  "make_contiguous_loop [] b = (([], [], []), b)"
| "make_contiguous_loop ((ty, val) # rest) b =
     (if \<not> is_Array ty \<or> layout ty \<in> {LayoutC, LayoutF} then
        (let ((newtys, newargs, copies), b') = make_contiguous_loop rest b
         in ((ty # newtys, val # newargs, copies), b'))
      else
        (let newty = Array (dtype ty) (ndim ty) LayoutC;
             copysig = \<lparr>return_type = newty, sig_args = [ty]\<rparr>;
             (newval, b1) = array_copy copysig [val] b;
             ((newtys, newargs, copies), b') = make_contiguous_loop rest b1
         in ((newty # newtys, newval # newargs, (newty, newval) # copies), b')))"

fun make_contiguous_release :: "(nbtype \<times> operand) list \<Rightarrow> builder \<Rightarrow> builder" where
  "make_contiguous_release [] b = b"
| "make_contiguous_release ((ty, val) # copies) b =
     make_contiguous_release copies (decref ty val b)"

definition make_contiguous ::
  "signature \<Rightarrow> operand list \<Rightarrow>
   (signature \<Rightarrow> operand list \<Rightarrow> builder \<Rightarrow> (error + 'a) \<times> builder) \<Rightarrow>
   builder \<Rightarrow> (error + 'a) \<times> builder" where
  "make_contiguous sg args body b =
     (let ((newtys, newargs, copies), b1) = make_contiguous_loop (zip (sig_args sg) args) b
      in case body \<lparr>return_type = return_type sg, sig_args = newtys\<rparr> newargs b1 of
           (Inl e, b2) \<Rightarrow> (Inl e, b2)
         | (Inr v, b2) \<Rightarrow> (Inr v, make_contiguous_release copies b2))"

definition check_c_int :: "operand \<Rightarrow> builder \<Rightarrow> builder" where
  "check_c_int n b =
     snd (compile_internal Check_c_int_impl \<lparr>return_type = NoneType, sig_args = [intp]\<rparr> [n] b)"

definition ensure_dpnp :: "lowering_context \<Rightarrow> string \<Rightarrow> error option" where
  "ensure_dpnp ctx nm =
     (if dpnp_importable ctx then None
      else Some (ImportError (''dpNP is needed to call np.'' @ nm)))"

definition get_total_size_of_array ::
  "lowering_context \<Rightarrow> nbtype \<Rightarrow> array_proxy \<Rightarrow> builder \<Rightarrow> operand \<times> builder" where
  "get_total_size_of_array ctx aty ary b =
     (let (total_size, b1) = alloca_once ll_intp_t b;
          (product, b2) = mul (nitems ary)
                         (get_constant intp (int (get_abi_sizeof ctx (get_value_type aty)))) b1;
          (ext, b3) = sext product ll_intp_t b2;
          b4 = store ext total_size b3
      in load total_size b4)"

definition get_sycl_queue :: "builder \<Rightarrow> operand \<times> builder" where
  "get_sycl_queue b =
     (let (sycl_queue_val, b1) = alloca_once void_ptr_t b;
          (q, b2) = call ''DPPLQueueMgr_GetCurrentQueue'' [] b1;
          b3 = store q sycl_queue_val b2
      in (sycl_queue_val, b3))"

definition allocate_usm :: "operand \<Rightarrow> operand \<Rightarrow> builder \<Rightarrow> operand \<times> builder" where
  "allocate_usm sz sycl_queue b =
     (let (buffer_ptr, b1) = alloca_once void_ptr_t b;
          (q, b2) = load sycl_queue b1;
          (r, b3) = call ''DPPLmalloc_shared'' [sz, q] b2;
          b4 = store r buffer_ptr b3
      in load buffer_ptr b4)"

definition copy_usm :: "operand \<Rightarrow> operand \<Rightarrow> operand \<Rightarrow> operand \<Rightarrow> builder \<Rightarrow> builder" where
  "copy_usm src dst sz sycl_queue b =
     (let (q, b1) = load sycl_queue b;
          (d, b2) = bitcast dst void_ptr_t b1;
          (s, b3) = bitcast src void_ptr_t b2
      in snd (call ''DPPLQueue_Memcpy'' [q, d, s, sz] b3))"

definition free_usm :: "operand \<Rightarrow> operand \<Rightarrow> builder \<Rightarrow> builder" where
  "free_usm usm_buf sycl_queue b =
     (let (q, b1) = load sycl_queue b
      in snd (call ''DPPLfree_with_queue'' [usm_buf, q] b1))"

definition call_dpnp ::
  "lowering_context \<Rightarrow> string \<Rightarrow> string list \<Rightarrow> operand list \<Rightarrow> lltype list \<Rightarrow> lltype \<Rightarrow>
   builder \<Rightarrow> error option \<times> builder" where
  "call_dpnp ctx fn_name type_names params param_tys ret_ty b =
     (if \<not> dpnp_importable ctx then (Some (ImportError ''dpnp_glue''), b)
      else
        (let b0 = b\<lparr>lookups := lookups b @ [(fn_name, type_names)]\<rparr>
         in case get_dpnp_fn_ptr ctx fn_name type_names of
              None \<Rightarrow> (Some (UnsupportedTypeCombination fn_name type_names), b0)
            | Some f_ptr \<Rightarrow>
                (let fnty = \<lparr>fn_return = ret_ty, fn_args = param_tys\<rparr>;
                     addr_constant = get_constant int64 f_ptr;
                     (fn_ptr, b1) = inttoptr addr_constant b0
                 in case call_ptr ctx fnty fn_ptr params b1 of
                      (Inl e, b2) \<Rightarrow> (Some e, b2)
                    | (Inr res, b2) \<Rightarrow> (None, b2))))"

section \<open>The lowerings\<close>

type_synonym lowering =
  "lowering_context \<Rightarrow> signature \<Rightarrow> operand list \<Rightarrow> builder \<Rightarrow> (error + operand) \<times> builder"

definition dot_2_vv :: lowering where
  "dot_2_vv ctx sg args b =
     (case unpack2 (sig_args sg) of Inl e \<Rightarrow> (Inl e, b) | Inr (aty, bty) \<Rightarrow>
      case item args 0 of Inl e \<Rightarrow> (Inl e, b) | Inr arg0 \<Rightarrow>
      case item args 1 of Inl e \<Rightarrow> (Inl e, b) | Inr arg1 \<Rightarrow>
      (let a = make_array aty arg0;
           bb = make_array bty arg1;
           (out, b1) = alloca_once (get_value_type (return_type sg)) b
       in case unpack1 (unpack_shape a) of Inl e \<Rightarrow> (Inl e, b1) | Inr n \<Rightarrow>
          (let (u, b2) = compile_internal Dot_vv_check_args
                           \<lparr>return_type = NoneType, sig_args = sig_args sg\<rparr> args b1;
               b3 = check_c_int n b2;
               (p0, b4) = bitcast (data a) ll_void_p b3;
               (p1, b5) = bitcast (data bb) ll_void_p b4;
               (p2, b6) = bitcast out ll_void_p b5;
               param_tys = [ll_void_p, ll_void_p, ll_void_p, LLInt 64];
               type_names = map (\<lambda>argty. name ctx (dtype argty)) (sig_args sg)
                            @ [name ctx (return_type sg)]
           in case call_dpnp ctx ''dpnp_dot'' type_names [p0, p1, p2, n] param_tys ll_void b6 of
                (Some e, b7) \<Rightarrow> (Inl e, b7)
              | (None, b7) \<Rightarrow> (let (r, b8) = load out b7 in (Inr r, b8)))))"

definition dot_2_mm :: lowering where
  "dot_2_mm ctx sg args b =
     (case unpack2 (sig_args sg) of Inl e \<Rightarrow> (Inl e, b) | Inr (aty, bty) \<Rightarrow>
      case item args 0 of Inl e \<Rightarrow> (Inl e, b) | Inr arg0 \<Rightarrow>
      case item args 1 of Inl e \<Rightarrow> (Inl e, b) | Inr arg1 \<Rightarrow>
      (let a = make_array aty arg0;
           bb = make_array bty arg1
       in case unpack2 (unpack_shape a) of Inl e \<Rightarrow> (Inl e, b) | Inr (m, n) \<Rightarrow>
          case unpack2 (unpack_shape bb) of Inl e \<Rightarrow> (Inl e, b) | Inr (n', k) \<Rightarrow>
          (let (out, b1) = compile_internal Dot_mm_make_res
                             \<lparr>return_type = return_type sg, sig_args = sig_args sg\<rparr> args b;
               outary = make_array (return_type sg) out;
               (p0, b2) = bitcast (data a) ll_void_p b1;
               (p1, b3) = bitcast (data bb) ll_void_p b2;
               (p2, b4) = bitcast (data outary) ll_void_p b3;
               param_tys = [ll_void_p, ll_void_p, ll_void_p, LLInt 64, LLInt 64, LLInt 64];
               type_names = map (\<lambda>argty. name ctx (dtype argty)) (take 1 (sig_args sg))
                            @ [name ctx (return_type sg)]
           in case call_dpnp ctx ''dpnp_matmul'' type_names [p0, p1, p2, m, n, k] param_tys ll_void b4 of
                (Some e, b5) \<Rightarrow> (Inl e, b5)
              | (None, b5) \<Rightarrow> (Inr out, b5))))"

definition dot_2_mv :: lowering where
  "dot_2_mv ctx sg args b =
     (case unpack2 (sig_args sg) of Inl e \<Rightarrow> (Inl e, b) | Inr (aty, bty) \<Rightarrow>
      case item args 0 of Inl e \<Rightarrow> (Inl e, b) | Inr arg0 \<Rightarrow>
      case item args 1 of Inl e \<Rightarrow> (Inl e, b) | Inr arg1 \<Rightarrow>
      (let a = make_array aty arg0;
           bb = make_array bty arg1
       in case unpack2 (unpack_shape a) of Inl e \<Rightarrow> (Inl e, b) | Inr (m, n) \<Rightarrow>
          case unpack1 (unpack_shape bb) of Inl e \<Rightarrow> (Inl e, b) | Inr n' \<Rightarrow>
          (let k = get_constant int64 1;
               (out, b1) = compile_internal Dot_mv_make_res
                             \<lparr>return_type = return_type sg, sig_args = sig_args sg\<rparr> args b;
               outary = make_array (return_type sg) out;
               (p0, b2) = bitcast (data a) ll_void_p b1;
               (p1, b3) = bitcast (data bb) ll_void_p b2;
               (p2, b4) = bitcast (data outary) ll_void_p b3;
               param_tys = [ll_void_p, ll_void_p, ll_void_p, LLInt 64, LLInt 64, LLInt 64];
               type_names = map (\<lambda>argty. name ctx (dtype argty)) (take 1 (sig_args sg))
                            @ [name ctx (return_type sg)]
           in case call_dpnp ctx ''dpnp_matmul'' type_names [p0, p1, p2, m, n, k] param_tys ll_void b4 of
                (Some e, b5) \<Rightarrow> (Inl e, b5)
              | (None, b5) \<Rightarrow> (Inr out, b5))))"

text \<open>
  \<open>dot_2_vm\<close> declares five parameter types (the comment above them lists six) and
  passes six arguments, so whether its call is built depends on \<open>checks_call_arity\<close>.
\<close>

definition dot_2_vm :: lowering where
  "dot_2_vm ctx sg args b =
     (case unpack2 (sig_args sg) of Inl e \<Rightarrow> (Inl e, b) | Inr (aty, bty) \<Rightarrow>
      case item args 0 of Inl e \<Rightarrow> (Inl e, b) | Inr arg0 \<Rightarrow>
      case item args 1 of Inl e \<Rightarrow> (Inl e, b) | Inr arg1 \<Rightarrow>
      (let a = make_array aty arg0;
           bb = make_array bty arg1
       in case unpack1 (unpack_shape a) of Inl e \<Rightarrow> (Inl e, b) | Inr m0 \<Rightarrow>
          case unpack2 (unpack_shape bb) of Inl e \<Rightarrow> (Inl e, b) | Inr (n, k) \<Rightarrow>
          (let m = get_constant int64 1;
               (out, b1) = compile_internal Dot_vm_make_res
                             \<lparr>return_type = return_type sg, sig_args = sig_args sg\<rparr> args b;
               outary = make_array (return_type sg) out;
               (p0, b2) = bitcast (data a) ll_void_p b1;
               (p1, b3) = bitcast (data bb) ll_void_p b2;
               (p2, b4) = bitcast (data outary) ll_void_p b3;
               param_tys = [ll_void_p, ll_void_p, ll_void_p, LLInt 64, LLInt 64];
               type_names = map (\<lambda>argty. name ctx (dtype argty)) (take 1 (sig_args sg))
                            @ [name ctx (return_type sg)]
           in case call_dpnp ctx ''dpnp_matmul'' type_names [p0, p1, p2, m, n, k] param_tys ll_void b4 of
                (Some e, b5) \<Rightarrow> (Inl e, b5)
              | (None, b5) \<Rightarrow> (Inr out, b5))))"

text \<open>
  In \<open>dot_dppl\<close> every branch of the \<^verbatim>\<open>with\<close> block returns or fails, so the
  \<^verbatim>\<open>raise ImportError\<close> written after the block is never reached.
\<close>

definition dot_dppl :: lowering where
  "dot_dppl ctx sg args b =
     (case ensure_dpnp ctx ''dot'' of Some e \<Rightarrow> (Inl e, b) | None \<Rightarrow>
      make_contiguous sg args
        (\<lambda>sg args b.
           (let ndims = map ndim (take 2 (sig_args sg))
            in if ndims = [2, 2] then dot_2_mm ctx sg args b
               else if ndims = [2, 1] then dot_2_mv ctx sg args b
               else if ndims = [1, 2] then dot_2_vm ctx sg args b
               else if ndims = [1, 1] then dot_2_vv ctx sg args b
               else (Inl AssertionError, b)))
        b)"

text \<open>
  The names bound at module level. A name read inside a function that the function never
  assigns is looked up here (and then among the builtins); \<^verbatim>\<open>sycl_queue\<close>, which
  \<open>matmul_dppl\<close> reads, is not among them.
\<close>

definition module_names :: "string list" where
  "module_names =
     [''np'', ''types'', ''cgutils'', ''lower_builtin'', ''signature'', ''make_array'',
      ''_empty_nd_impl'', ''array_copy'', ''itanium_mangler'', ''ir'', ''lc'', ''contextlib'',
      ''int32'', ''int64'', ''uint32'', ''uint64'', ''float32'', ''float64'',
      ''make_contiguous'', ''check_c_int'', ''ll_char'', ''ll_char_p'', ''ll_void'',
      ''ll_void_p'', ''ll_intc'', ''ll_intc_p'', ''intp_t'', ''ll_intp_t'', ''ll_intp_p'',
      ''ensure_dpnp'', ''get_total_size_of_array'', ''get_sycl_queue'', ''allocate_usm'',
      ''copy_usm'', ''free_usm'', ''call_dpnp'', ''dot_2_vv'', ''dot_2_mm'', ''dot_2_mv'',
      ''dot_2_vm'', ''dot_dppl'', ''matmul_dppl'', ''common_sum_prod_impl'', ''array_sum'',
      ''array_prod'', ''common_argmax_argmin_impl'', ''array_argmax'', ''array_argmin'',
      ''array_argsort'', ''array_cov'']"

definition module_global :: "string \<Rightarrow> error + operand" where
  "module_global nm =
     (if nm \<in> set module_names then Inr (Global nm) else Inl (NameError nm))"

definition matmul_dppl :: lowering where
  "matmul_dppl ctx sg args b =
     (case ensure_dpnp ctx ''matmul'' of Some e \<Rightarrow> (Inl e, b) | None \<Rightarrow>
      make_contiguous sg args
        (\<lambda>sg args b.
           (let ndims = map ndim (take 2 (sig_args sg))
            in if ndims \<noteq> [2, 2]
               then (Inl (ValueError ''array dimension has to be 2 for np.matmul(a, b)''), b)
               else
      case unpack2 (sig_args sg) of Inl e \<Rightarrow> (Inl e, b) | Inr (aty, bty) \<Rightarrow>
      case item args 0 of Inl e \<Rightarrow> (Inl e, b) | Inr arg0 \<Rightarrow>
      case item args 1 of Inl e \<Rightarrow> (Inl e, b) | Inr arg1 \<Rightarrow>
      (let a = make_array aty arg0;
           bb = make_array bty arg1
       in case unpack2 (unpack_shape a) of Inl e \<Rightarrow> (Inl e, b) | Inr (m, n) \<Rightarrow>
          case unpack2 (unpack_shape bb) of Inl e \<Rightarrow> (Inl e, b) | Inr (n', k) \<Rightarrow>
          (let (total_size_a, b1) = get_total_size_of_array ctx aty a b
           in case module_global ''sycl_queue'' of Inl e \<Rightarrow> (Inl e, b1) | Inr sycl_queue \<Rightarrow>
          (let (a_usm, b2) = allocate_usm total_size_a sycl_queue b1;
               b3 = copy_usm (data a) a_usm total_size_a sycl_queue b2;
               (total_size_b, b4) = get_total_size_of_array ctx bty bb b3;
               (b_usm, b5) = allocate_usm total_size_b sycl_queue b4;
               b6 = copy_usm (data bb) b_usm total_size_b sycl_queue b5;
               (out, b7) = compile_internal Matmul_make_res
                             \<lparr>return_type = return_type sg, sig_args = sig_args sg\<rparr> args b6;
               outary = make_array (return_type sg) out;
               (total_size_b, b8) = get_total_size_of_array ctx bty bb b7;
               (b_usm, b9) = allocate_usm total_size_b sycl_queue b8;
               b10 = copy_usm (data bb) b_usm total_size_b sycl_queue b9;
               (p0, b11) = bitcast (data a) ll_void_p b10;
               (p1, b12) = bitcast (data bb) ll_void_p b11;
               (p2, b13) = bitcast (data outary) ll_void_p b12;
               param_tys = [ll_void_p, ll_void_p, ll_void_p, LLInt 64, LLInt 64, LLInt 64];
               type_names = map (\<lambda>argty. name ctx (dtype argty)) (take 1 (sig_args sg))
                            @ [name ctx (return_type sg)]
           in case call_dpnp ctx ''dpnp_matmul'' type_names [p0, p1, p2, m, n, k] param_tys ll_void b13 of
                (Some e, b14) \<Rightarrow> (Inl e, b14)
              | (None, b14) \<Rightarrow> (Inr out, b14))))))
        b)"

definition common_sum_prod_impl ::
  "lowering_context \<Rightarrow> signature \<Rightarrow> operand list \<Rightarrow> string \<Rightarrow> builder \<Rightarrow>
   (error + operand) \<times> builder" where
  "common_sum_prod_impl ctx sg args fn_type b =
     (let (u, b1) = compile_internal Array_size_checker
                      \<lparr>return_type = NoneType, sig_args = sig_args sg\<rparr> args b;
          (sycl_queue, b2) = get_sycl_queue b1
      in case item (sig_args sg) 0 of Inl e \<Rightarrow> (Inl e, b2) | Inr aty \<Rightarrow>
         case item args 0 of Inl e \<Rightarrow> (Inl e, b2) | Inr arg0 \<Rightarrow>
         (let a = make_array aty arg0;
              n = nitems a;
              (total_size_a, b3) = get_total_size_of_array ctx (dtype aty) a b2;
              (a_usm, b4) = allocate_usm total_size_a sycl_queue b3;
              b5 = copy_usm (data a) a_usm total_size_a sycl_queue b4;
              (out, b6) = alloca_once (get_value_type (return_type sg)) b5;
              b7 = store (get_constant (return_type sg) 0) out b6;
              (out_usm, b8) = allocate_usm
                  (get_constant intp (int (get_abi_sizeof ctx (get_value_type (dtype aty)))))
                  sycl_queue b7;
              param_tys = [ll_void_p, ll_void_p, LLInt 64];
              type_names = [name ctx (dtype aty), ''NONE'']
          in case call_dpnp ctx fn_type type_names [a_usm, out_usm, n] param_tys ll_void b8 of
               (Some e, b9) \<Rightarrow> (Inl e, b9)
             | (None, b9) \<Rightarrow>
                 (let b10 = copy_usm out_usm out
                       (get_constant intp (int (get_abi_sizeof ctx (get_value_type (dtype aty)))))
                       sycl_queue b9;
                      b11 = free_usm a_usm sycl_queue b10;
                      b12 = free_usm out_usm sycl_queue b11;
                      (r, b13) = load out b12
                  in (Inr r, b13))))"

definition array_sum :: lowering where
  "array_sum ctx sg args b =
     (case ensure_dpnp ctx ''sum'' of Some e \<Rightarrow> (Inl e, b)
      | None \<Rightarrow> common_sum_prod_impl ctx sg args ''dpnp_sum'' b)"

definition array_prod :: lowering where
  "array_prod ctx sg args b =
     (case ensure_dpnp ctx ''prod'' of Some e \<Rightarrow> (Inl e, b)
      | None \<Rightarrow> common_sum_prod_impl ctx sg args ''dpnp_prod'' b)"

definition common_argmax_argmin_impl ::
  "lowering_context \<Rightarrow> signature \<Rightarrow> operand list \<Rightarrow> string \<Rightarrow> builder \<Rightarrow>
   (error + operand) \<times> builder" where
  "common_argmax_argmin_impl ctx sg args fn_type b =
     (let (u, b1) = compile_internal Array_size_checker
                      \<lparr>return_type = NoneType, sig_args = sig_args sg\<rparr> args b;
          (sycl_queue, b2) = get_sycl_queue b1
      in case item (sig_args sg) 0 of Inl e \<Rightarrow> (Inl e, b2) | Inr aty \<Rightarrow>
         case item args 0 of Inl e \<Rightarrow> (Inl e, b2) | Inr arg0 \<Rightarrow>
         (let a = make_array aty arg0;
              n = nitems a;
              (total_size_a, b3) = get_total_size_of_array ctx (dtype aty) a b2;
              (a_usm, b4) = allocate_usm total_size_a sycl_queue b3;
              b5 = copy_usm (data a) a_usm total_size_a sycl_queue b4;
              (out, b6) = alloca_once (get_value_type (return_type sg)) b5;
              b7 = store (get_constant (return_type sg) 0) out b6;
              (out_usm, b8) = allocate_usm
                  (get_constant intp (int (get_abi_sizeof ctx (get_value_type (return_type sg)))))
                  sycl_queue b7;
              param_tys = [ll_void_p, ll_void_p, LLInt 64];
              type_names = [name ctx (dtype aty), name ctx (return_type sg)]
          in case call_dpnp ctx fn_type type_names [a_usm, out_usm, n] param_tys ll_void b8 of
               (Some e, b9) \<Rightarrow> (Inl e, b9)
             | (None, b9) \<Rightarrow>
                 (let b10 = copy_usm out_usm out
                       (get_constant intp
                          (int (get_abi_sizeof ctx (get_value_type (return_type sg)))))
                       sycl_queue b9;
                      b11 = free_usm a_usm sycl_queue b10;
                      b12 = free_usm out_usm sycl_queue b11;
                      (r, b13) = load out b12
                  in (Inr r, b13))))"

definition array_argmax :: lowering where
  "array_argmax ctx sg args b =
     (case ensure_dpnp ctx ''argmax'' of Some e \<Rightarrow> (Inl e, b)
      | None \<Rightarrow> common_argmax_argmin_impl ctx sg args ''dpnp_argmax'' b)"

definition array_argmin :: lowering where
  "array_argmin ctx sg args b =
     (case ensure_dpnp ctx ''argmin'' of Some e \<Rightarrow> (Inl e, b)
      | None \<Rightarrow> common_argmax_argmin_impl ctx sg args ''dpnp_argmax'' b)"

definition array_argsort :: lowering where
  "array_argsort ctx sg args b =
     (case ensure_dpnp ctx ''argsort'' of Some e \<Rightarrow> (Inl e, b) | None \<Rightarrow>
      case item (sig_args sg) 0 of Inl e \<Rightarrow> (Inl e, b) | Inr aty \<Rightarrow>
      case item args 0 of Inl e \<Rightarrow> (Inl e, b) | Inr arg0 \<Rightarrow>
      (let a = make_array aty arg0
       in case unpack1 (unpack_shape a) of Inl e \<Rightarrow> (Inl e, b) | Inr n \<Rightarrow>
          (let (out, b1) = compile_internal Argsort_make_res
                             \<lparr>return_type = return_type sg, sig_args = take 1 (sig_args sg)\<rparr>
                             (take 1 args) b;
               outary = make_array (return_type sg) out;
               (p0, b2) = bitcast (data a) ll_void_p b1;
               (p1, b3) = bitcast (data outary) ll_void_p b2;
               param_tys = [ll_void_p, ll_void_p, LLInt 64];
               type_names = map (\<lambda>argty. name ctx (dtype argty)) (take 1 (sig_args sg))
                            @ [name ctx (return_type sg)]
           in case call_dpnp ctx ''dpnp_argsort'' type_names [p0, p1, n] param_tys ll_void b3 of
                (Some e, b4) \<Rightarrow> (Inl e, b4)
              | (None, b4) \<Rightarrow> (Inr out, b4))))"

text \<open>
  In \<open>array_cov\<close> the local \<^verbatim>\<open>out\<close> is assigned only in the branches for \<^verbatim>\<open>ndim\<close> 2
  and 1; the third branch is \<^verbatim>\<open>pass\<close> under a TODO comment, so the read of \<^verbatim>\<open>out\<close>
  that follows raises \<^verbatim>\<open>UnboundLocalError\<close>. The locals \<^verbatim>\<open>m\<close> and \<^verbatim>\<open>n\<close> are
  modelled the same way, as optional values. \<^verbatim>\<open>nrows\<close> and \<^verbatim>\<open>ncols\<close> are the
  stack slots themselves: the source passes them to the backend call without loading
  them, under parameter types that declare 64-bit integers.
\<close>

definition array_cov :: lowering where
  "array_cov ctx sg args b =
     (case ensure_dpnp ctx ''cov'' of Some e \<Rightarrow> (Inl e, b) | None \<Rightarrow>
      case item (sig_args sg) 0 of Inl e \<Rightarrow> (Inl e, b) | Inr aty \<Rightarrow>
      case item args 0 of Inl e \<Rightarrow> (Inl e, b) | Inr arg0 \<Rightarrow>
      (let a = make_array aty arg0
       in case (if ndim aty = 2 then
                  (case unpack2 (unpack_shape a) of Inl e \<Rightarrow> (Inl e, b)
                   | Inr (m, n) \<Rightarrow>
                       (let (out, b1) = compile_internal Cov_make_2D_res
                              \<lparr>return_type = return_type sg, sig_args = [int64]\<rparr> [m] b
                        in (Inr (Some out, Some m, Some n), b1)))
                else if ndim aty = 1 then
                  (case unpack1 (unpack_shape a) of Inl e \<Rightarrow> (Inl e, b)
                   | Inr m \<Rightarrow>
                       (let (out, b1) = compile_internal Cov_make_1D_res
                              \<lparr>return_type = return_type sg, sig_args = [int64]\<rparr> [m] b
                        in (Inr (Some out, Some m, None), b1)))
                else (Inr (None, None, None), b)) of
            (Inl e, b1) \<Rightarrow> (Inl e, b1)
          | (Inr (None, m, n), b1) \<Rightarrow> (Inl (UnboundLocalError ''out''), b1)
          | (Inr (Some out, m, n), b1) \<Rightarrow>
              (let outary = make_array (return_type sg) out;
                   (nrows, b2) = alloca_once (get_value_type int64) b1;
                   (ncols, b3) = alloca_once (get_value_type int64) b2;
                   b4 = (if ndim aty = 2 then store (the n) ncols (store (the m) nrows b3)
                         else if ndim aty = 1
                         then store (the m) ncols (store (get_constant int64 1) nrows b3)
                         else b3);
                   (p0, b5) = bitcast (data a) ll_void_p b4;
                   (p1, b6) = bitcast (data outary) ll_void_p b5;
                   param_tys = [ll_void_p, ll_void_p, LLInt 64, LLInt 64];
                   type_names = map (\<lambda>argty. name ctx (dtype argty)) (take 1 (sig_args sg))
                                @ [name ctx (return_type sg)]
               in case call_dpnp ctx ''dpnp_cov'' type_names [p0, p1, nrows, ncols] param_tys ll_void b6 of
                    (Some e, b7) \<Rightarrow> (Inl e, b7)
                  | (None, b7) \<Rightarrow> (Inr out, b7))))"

text \<open>The registrations made by \<^verbatim>\<open>lower_builtin\<close>: the operation and its operand types.\<close>

datatype np_op =
  Np_dot | Np_matmul | Np_sum | Np_prod | Np_argmax | Np_argmin | Np_argsort | Np_cov

fun lower_builtin :: "np_op \<Rightarrow> lowering" where
  "lower_builtin Np_dot = dot_dppl"
| "lower_builtin Np_matmul = matmul_dppl"
| "lower_builtin Np_sum = array_sum"
| "lower_builtin Np_prod = array_prod"
| "lower_builtin Np_argmax = array_argmax"
| "lower_builtin Np_argmin = array_argmin"
| "lower_builtin Np_argsort = array_argsort"
| "lower_builtin Np_cov = array_cov"

fun registered :: "np_op \<Rightarrow> nbtype list \<Rightarrow> bool" where
  "registered Np_dot tys = (case tys of [a, b] \<Rightarrow> is_Array a \<and> is_Array b | _ \<Rightarrow> False)"
| "registered Np_matmul tys = (case tys of [a, b] \<Rightarrow> is_Array a \<and> is_Array b | _ \<Rightarrow> False)"
| "registered Np_argsort tys = (case tys of [a, k] \<Rightarrow> is_Array a \<and> is_StringLiteral k | _ \<Rightarrow> False)"
| "registered opn tys = (case tys of [a] \<Rightarrow> is_Array a | _ \<Rightarrow> False)"

section \<open>The Python functions compiled into the generated code\<close>

text \<open>
  The closures passed to \<^verbatim>\<open>compile_internal\<close> run when the generated code runs. Each
  is modelled on the shapes of its array arguments. \<^verbatim>\<open>np.empty\<close> and \<^verbatim>\<open>np.arange\<close>
  are returned as requests, which the interpreter below turns into a new host array.
\<close>

datatype pyval = PyInt int | PyTuple "int list"

fun py_ne :: "pyval \<Rightarrow> pyval \<Rightarrow> bool" where
  "py_ne (PyInt x) (PyInt y) = (x \<noteq> y)"
| "py_ne (PyTuple xs) (PyTuple ys) = (xs \<noteq> ys)"
| "py_ne (PyInt x) (PyTuple ys) = True"
| "py_ne (PyTuple xs) (PyInt y) = True"

datatype pyres = PyNone | NpEmpty "int list" | NpArange int

definition check_c_int_impl :: "int \<Rightarrow> error + pyres" where
  "check_c_int_impl n =
     (let maxint = 2 ^ 31 - 1
      in if n > maxint then Inl (OverflowError ''array size too large to fit in C int'')
         else Inr PyNone)"

definition dot_2_vv_check_args :: "int list \<Rightarrow> int list \<Rightarrow> error + pyres" where
  "dot_2_vv_check_args a_shape b_shape =
     (case unpack1 a_shape of Inl e \<Rightarrow> Inl e | Inr m \<Rightarrow>
      case unpack1 b_shape of Inl e \<Rightarrow> Inl e | Inr n \<Rightarrow>
      if py_ne (PyInt m) (PyInt n)
      then Inl (ValueError ''incompatible array sizes for np.dot(a, b) (vector * vector)'')
      else Inr PyNone)"

definition dot_2_mm_make_res :: "int list \<Rightarrow> int list \<Rightarrow> error + pyres" where
  "dot_2_mm_make_res a_shape b_shape =
     (case unpack2 a_shape of Inl e \<Rightarrow> Inl e | Inr (m, n) \<Rightarrow>
      case unpack2 b_shape of Inl e \<Rightarrow> Inl e | Inr (n', k) \<Rightarrow>
      if py_ne (PyInt n') (PyInt n)
      then Inl (ValueError ''incompatible array sizes for np.dot(a, b)'')
      else Inr (NpEmpty [m, k]))"

definition dot_2_mv_make_res :: "int list \<Rightarrow> int list \<Rightarrow> error + pyres" where
  "dot_2_mv_make_res a_shape b_shape =
     (case unpack2 a_shape of Inl e \<Rightarrow> Inl e | Inr (m, n) \<Rightarrow>
      (let n' = PyTuple b_shape
       in if py_ne n' (PyInt n)
          then Inl (ValueError ''incompatible array sizes for np.dot(a, b)'')
          else Inr (NpEmpty [m])))"

definition dot_2_vm_make_res :: "int list \<Rightarrow> int list \<Rightarrow> error + pyres" where
  "dot_2_vm_make_res a_shape b_shape =
     (case unpack1 a_shape of Inl e \<Rightarrow> Inl e | Inr m \<Rightarrow>
      case unpack2 b_shape of Inl e \<Rightarrow> Inl e | Inr (n, k) \<Rightarrow>
      if py_ne (PyInt m) (PyInt n)
      then Inl (ValueError ''incompatible array sizes for np.dot(a, b)'')
      else Inr (NpEmpty [k]))"

definition matmul_make_res :: "int list \<Rightarrow> int list \<Rightarrow> error + pyres" where
  "matmul_make_res a_shape b_shape =
     (case unpack2 a_shape of Inl e \<Rightarrow> Inl e | Inr (m, n) \<Rightarrow>
      case unpack2 b_shape of Inl e \<Rightarrow> Inl e | Inr (n', k) \<Rightarrow>
      if py_ne (PyInt n') (PyInt n)
      then Inl (ValueError ''incompatible array sizes for np.matmul(a, b)'')
      else Inr (NpEmpty [m, k]))"

definition array_size_checker :: "int list \<Rightarrow> error + pyres" where
  "array_size_checker arry_shape =
     (if prod_list arry_shape = 0 then Inl (ValueError ''Passed Empty array'')
      else Inr PyNone)"

definition argsort_make_res :: "int list \<Rightarrow> error + pyres" where
  "argsort_make_res a_shape = Inr (NpArange (prod_list a_shape))"

definition make_1D_res :: "int \<Rightarrow> error + pyres" where
  "make_1D_res n = Inr (NpEmpty [1])"

definition make_2D_res :: "int \<Rightarrow> error + pyres" where
  "make_2D_res n = Inr (NpEmpty [n, n])"

section \<open>Running the generated code\<close>

type_synonym byte = "8 word"

datatype rval =
    VInt int
  | VArr "int list" nat
  | VHost nat
  | VSlot nat
  | VDev nat
  | VQueue nat
  | VFn int
  | VBytes "byte list"
  | VNone
  | VUndef

text \<open>
  The calls that leave the generated code, in the order they happen: the four device
  runtime entry points, the backend function, and the host array primitives.
\<close>

datatype event =
    GetQueue nat
  | Malloc int rval nat
  | Memcpy rval rval rval int
  | Free rval rval
  | Invoke int "rval list"
  | NewArray "int list" nat
  | CopyArray nat nat
  | DecrefArray nat

text \<open>
  The surroundings at run time: the actual arguments of the call site, the handle the
  queue manager returns, the bytes found in a device buffer when it is copied back, and
  the value the backend leaves in a host slot it was given a pointer to.
\<close>

record world =
  argv :: "rval list"
  current_queue :: nat
  dev_read :: "nat \<Rightarrow> nat \<Rightarrow> byte"
  backend_out :: "int \<Rightarrow> nat \<Rightarrow> rval"

record rstate =
  regs :: "nat \<Rightarrow> rval option"
  slots :: "nat \<Rightarrow> (lltype \<times> rval) option"
  trace :: "event list"
  next_id :: nat
  raised :: "error option"

fun eval_operand :: "world \<Rightarrow> rstate \<Rightarrow> operand \<Rightarrow> rval option" where
  "eval_operand w s (Reg r) = regs s r"
| "eval_operand w s (Arg i) = (if i < length (argv w) then Some (argv w ! i) else None)"
| "eval_operand w s (Global nm) = None"
| "eval_operand w s (Const ty v) = Some (VInt v)"
| "eval_operand w s (ArrData x) =
     (case eval_operand w s x of Some (VArr sh d) \<Rightarrow> Some (VHost d) | _ \<Rightarrow> None)"
| "eval_operand w s (ArrNitems x) =
     (case eval_operand w s x of Some (VArr sh d) \<Rightarrow> Some (VInt (prod_list sh)) | _ \<Rightarrow> None)"
| "eval_operand w s (ArrDim x i) =
     (case eval_operand w s x of
        Some (VArr sh d) \<Rightarrow> (if i < length sh then Some (VInt (sh ! i)) else None)
      | _ \<Rightarrow> None)"

fun eval_operands :: "world \<Rightarrow> rstate \<Rightarrow> operand list \<Rightarrow> rval list option" where
  "eval_operands w s [] = Some []"
| "eval_operands w s (x # xs) =
     (case eval_operand w s x of None \<Rightarrow> None
      | Some v \<Rightarrow> (case eval_operands w s xs of None \<Rightarrow> None | Some vs \<Rightarrow> Some (v # vs)))"

text \<open>A 64-bit multiplication wraps around; the result is read as a signed value.\<close>

definition wrap64 :: "int \<Rightarrow> int" where
  "wrap64 x = (x + 2 ^ 63) mod 2 ^ 64 - 2 ^ 63"

fun le_bytes :: "nat \<Rightarrow> int \<Rightarrow> byte list" where
  "le_bytes 0 v = []"
| "le_bytes (Suc n) v = word_of_int v # le_bytes n (v div 256)"

fun bytes_of :: "nat \<Rightarrow> rval \<Rightarrow> byte list option" where
  "bytes_of n (VInt v) = Some (le_bytes n v)"
| "bytes_of n (VBytes bs) = (if length bs = n then Some bs else None)"
| "bytes_of n v = None"

fun shape_of :: "rval \<Rightarrow> int list option" where
  "shape_of (VArr sh d) = Some sh"
| "shape_of v = None"

fun int_of :: "rval \<Rightarrow> int option" where
  "int_of (VInt n) = Some n"
| "int_of v = None"

definition on_shape :: "(int list \<Rightarrow> error + pyres) \<Rightarrow> rval list \<Rightarrow> error + pyres" where
  "on_shape f vs =
     (case vs of [a] \<Rightarrow> (case shape_of a of Some sa \<Rightarrow> f sa | None \<Rightarrow> Inl UndefinedBehaviour)
      | _ \<Rightarrow> Inl UndefinedBehaviour)"

definition on_shapes ::
  "(int list \<Rightarrow> int list \<Rightarrow> error + pyres) \<Rightarrow> rval list \<Rightarrow> error + pyres" where
  "on_shapes f vs =
     (case vs of
        [a, b] \<Rightarrow>
          (case shape_of a of None \<Rightarrow> Inl UndefinedBehaviour
           | Some sa \<Rightarrow>
               (case shape_of b of None \<Rightarrow> Inl UndefinedBehaviour | Some sb \<Rightarrow> f sa sb))
      | _ \<Rightarrow> Inl UndefinedBehaviour)"

definition on_int :: "(int \<Rightarrow> error + pyres) \<Rightarrow> rval list \<Rightarrow> error + pyres" where
  "on_int f vs =
     (case vs of [a] \<Rightarrow> (case int_of a of Some n \<Rightarrow> f n | None \<Rightarrow> Inl UndefinedBehaviour)
      | _ \<Rightarrow> Inl UndefinedBehaviour)"

fun call_internal :: "pyfunc \<Rightarrow> rval list \<Rightarrow> error + pyres" where
  "call_internal Check_c_int_impl vs = on_int check_c_int_impl vs"
| "call_internal Dot_vv_check_args vs = on_shapes dot_2_vv_check_args vs"
| "call_internal Dot_mm_make_res vs = on_shapes dot_2_mm_make_res vs"
| "call_internal Dot_mv_make_res vs = on_shapes dot_2_mv_make_res vs"
| "call_internal Dot_vm_make_res vs = on_shapes dot_2_vm_make_res vs"
| "call_internal Matmul_make_res vs = on_shapes matmul_make_res vs"
| "call_internal Array_size_checker vs = on_shape array_size_checker vs"
| "call_internal Argsort_make_res vs = on_shape argsort_make_res vs"
| "call_internal Cov_make_1D_res vs = on_int make_1D_res vs"
| "call_internal Cov_make_2D_res vs = on_int make_2D_res vs"

definition fail :: "error \<Rightarrow> rstate \<Rightarrow> rstate" where
  "fail e s = s\<lparr>raised := Some e\<rparr>"

definition set_reg :: "nat \<Rightarrow> rval \<Rightarrow> rstate \<Rightarrow> rstate" where
  "set_reg r v s = s\<lparr>regs := (regs s)(r \<mapsto> v)\<rparr>"

definition log_event :: "event \<Rightarrow> rstate \<Rightarrow> rstate" where
  "log_event ev s = s\<lparr>trace := trace s @ [ev]\<rparr>"

definition new_host_array :: "nat \<Rightarrow> int list \<Rightarrow> rstate \<Rightarrow> rstate" where
  "new_host_array r sh s =
     set_reg r (VArr sh (next_id s))
       (log_event (NewArray sh (next_id s)) (s\<lparr>next_id := Suc (next_id s)\<rparr>))"

text \<open>
  A copy of \<open>n\<close> bytes from a device buffer into a stack slot replaces the first \<open>n\<close>
  bytes of the slot and leaves the others; a copy larger than the slot is undefined.
\<close>

definition memcpy_to_slot ::
  "lowering_context \<Rightarrow> world \<Rightarrow> nat \<Rightarrow> rval \<Rightarrow> int \<Rightarrow> rstate \<Rightarrow> rstate" where
  "memcpy_to_slot ctx w p src n s =
     (case (slots s p, src) of
        (Some (ty, old), VDev bid) \<Rightarrow>
          (case bytes_of (get_abi_sizeof ctx ty) old of
             None \<Rightarrow> fail UndefinedBehaviour s
           | Some bs \<Rightarrow>
               if 0 \<le> n \<and> nat n \<le> get_abi_sizeof ctx ty
               then s\<lparr>slots := (slots s)(p \<mapsto>
                      (ty, VBytes (map (dev_read w bid) [0 ..< nat n] @ drop (nat n) bs)))\<rparr>
               else fail UndefinedBehaviour s)
      | _ \<Rightarrow> fail UndefinedBehaviour s)"

definition call_extern ::
  "lowering_context \<Rightarrow> world \<Rightarrow> nat \<Rightarrow> string \<Rightarrow> rval list \<Rightarrow> rstate \<Rightarrow> rstate" where
  "call_extern ctx w r fn vs s =
     (if fn = ''DPPLQueueMgr_GetCurrentQueue'' then
        (case vs of
           [] \<Rightarrow> set_reg r (VQueue (current_queue w)) (log_event (GetQueue (current_queue w)) s)
         | _ \<Rightarrow> fail UndefinedBehaviour s)
      else if fn = ''DPPLmalloc_shared'' then
        (case vs of
           [VInt n, q] \<Rightarrow>
             set_reg r (VDev (next_id s))
               (log_event (Malloc n q (next_id s)) (s\<lparr>next_id := Suc (next_id s)\<rparr>))
         | _ \<Rightarrow> fail UndefinedBehaviour s)
      else if fn = ''DPPLQueue_Memcpy'' then
        (case vs of
           [q, dst, src, VInt n] \<Rightarrow>
             (let s1 = set_reg r VNone (log_event (Memcpy q dst src n) s)
              in case dst of VSlot p \<Rightarrow> memcpy_to_slot ctx w p src n s1 | _ \<Rightarrow> s1)
         | _ \<Rightarrow> fail UndefinedBehaviour s)
      else if fn = ''DPPLfree_with_queue'' then
        (case vs of
           [buf, q] \<Rightarrow> set_reg r VNone (log_event (Free buf q) s)
         | _ \<Rightarrow> fail UndefinedBehaviour s)
      else fail UndefinedBehaviour s)"

definition havoc ::
  "world \<Rightarrow> int \<Rightarrow> rval list \<Rightarrow> (nat \<Rightarrow> (lltype \<times> rval) option) \<Rightarrow>
   nat \<Rightarrow> (lltype \<times> rval) option" where
  "havoc w addr vs sl =
     (\<lambda>p. if VSlot p \<in> set vs
          then map_option (\<lambda>(ty, old). (ty, backend_out w addr p)) (sl p)
          else sl p)"

fun exec :: "lowering_context \<Rightarrow> world \<Rightarrow> instr \<Rightarrow> rstate \<Rightarrow> rstate" where
  "exec ctx w (Alloca r ty) s =
     set_reg r (VSlot r) (s\<lparr>slots := (slots s)(r \<mapsto> (ty, VUndef))\<rparr>)"
| "exec ctx w (Store x p) s =
     (case (eval_operand w s x, eval_operand w s p) of
        (Some v, Some (VSlot k)) \<Rightarrow>
          (case slots s k of
             Some (ty, old) \<Rightarrow> s\<lparr>slots := (slots s)(k \<mapsto> (ty, v))\<rparr>
           | None \<Rightarrow> fail UndefinedBehaviour s)
      | _ \<Rightarrow> fail UndefinedBehaviour s)"
| "exec ctx w (Load r p) s =
     (case eval_operand w s p of
        Some (VSlot k) \<Rightarrow>
          (case slots s k of
             Some (ty, v) \<Rightarrow> set_reg r v s
           | None \<Rightarrow> fail UndefinedBehaviour s)
      | _ \<Rightarrow> fail UndefinedBehaviour s)"
| "exec ctx w (Mul r x y) s =
     (case (eval_operand w s x, eval_operand w s y) of
        (Some (VInt m), Some (VInt n)) \<Rightarrow> set_reg r (VInt (wrap64 (m * n))) s
      | _ \<Rightarrow> fail UndefinedBehaviour s)"
| "exec ctx w (Sext r x ty) s =
     (case eval_operand w s x of
        Some (VInt m) \<Rightarrow> set_reg r (VInt m) s
      | _ \<Rightarrow> fail UndefinedBehaviour s)"
| "exec ctx w (Bitcast r x ty) s =
     (case eval_operand w s x of
        Some v \<Rightarrow> set_reg r v s
      | None \<Rightarrow> fail UndefinedBehaviour s)"
| "exec ctx w (IntToPtr r x) s =
     (case eval_operand w s x of
        Some (VInt m) \<Rightarrow> set_reg r (VFn m) s
      | _ \<Rightarrow> fail UndefinedBehaviour s)"
| "exec ctx w (Call r fn ps) s =
     (case eval_operands w s ps of
        Some vs \<Rightarrow> call_extern ctx w r fn vs s
      | None \<Rightarrow> fail UndefinedBehaviour s)"
| "exec ctx w (CallPtr r fp ps) s =
     (case (eval_operand w s fp, eval_operands w s ps) of
        (Some (VFn addr), Some vs) \<Rightarrow>
          set_reg r VNone
            (log_event (Invoke addr vs) (s\<lparr>slots := havoc w addr vs (slots s)\<rparr>))
      | _ \<Rightarrow> fail UndefinedBehaviour s)"
| "exec ctx w (CallInternal r f ps) s =
     (case eval_operands w s ps of
        None \<Rightarrow> fail UndefinedBehaviour s
      | Some vs \<Rightarrow>
          (case call_internal f vs of
             Inl e \<Rightarrow> fail e s
           | Inr PyNone \<Rightarrow> set_reg r VNone s
           | Inr (NpEmpty sh) \<Rightarrow> new_host_array r sh s
           | Inr (NpArange n) \<Rightarrow> new_host_array r [n] s))"
| "exec ctx w (ArrayCopy r x) s =
     (case eval_operand w s x of
        Some (VArr sh d) \<Rightarrow>
          set_reg r (VArr sh (next_id s))
            (log_event (CopyArray d (next_id s)) (s\<lparr>next_id := Suc (next_id s)\<rparr>))
      | _ \<Rightarrow> fail UndefinedBehaviour s)"
| "exec ctx w (Decref x) s =
     (case eval_operand w s x of
        Some (VArr sh d) \<Rightarrow> log_event (DecrefArray d) s
      | _ \<Rightarrow> fail UndefinedBehaviour s)"

text \<open>A raised exception leaves the generated code at once: nothing after it runs.\<close>

fun run :: "lowering_context \<Rightarrow> world \<Rightarrow> instr list \<Rightarrow> rstate \<Rightarrow> rstate" where
  "run ctx w [] s = s"
| "run ctx w (i # is) s =
     (let s' = exec ctx w i s
      in if raised s' = None then run ctx w is s' else s')"

definition start :: "nat \<Rightarrow> rstate" where
  "start k = \<lparr>regs = Map.empty, slots = Map.empty, trace = [], next_id = k, raised = None\<rparr>"

text \<open>
  The instructions one lowering added to a builder, and the run of exactly those
  instructions from a state with no registers, no slots and an empty trace.
\<close>

definition emitted :: "builder \<Rightarrow> builder \<Rightarrow> instr list" where
  "emitted b b' = drop (length (code b)) (code b')"

definition run_lowering ::
  "lowering \<Rightarrow> lowering_context \<Rightarrow> signature \<Rightarrow> operand list \<Rightarrow> builder \<Rightarrow>
   world \<Rightarrow> nat \<Rightarrow> rstate" where
  "run_lowering f ctx sg args b w k =
     run ctx w (emitted b (snd (f ctx sg args b))) (start k)"

section \<open>Observations on generated code and on traces\<close>

text \<open>The operands a registered call site passes: one per operand type, in order.\<close>

definition call_args :: "nbtype list \<Rightarrow> operand list" where
  "call_args tys = map Arg [0 ..< length tys]"

text \<open>A builder after \<open>n\<close> more registers and the instructions \<open>ys\<close>.\<close>

definition extend :: "builder \<Rightarrow> nat \<Rightarrow> instr list \<Rightarrow> builder" where
  "extend b n ys = b\<lparr>fresh := fresh b + n, code := code b @ ys\<rparr>"

text \<open>One builder continues another with instructions that all satisfy \<open>P\<close>.\<close>

definition extends_with :: "(instr \<Rightarrow> bool) \<Rightarrow> builder \<Rightarrow> builder \<Rightarrow> bool" where
  "extends_with P b b' = (\<exists>ys. code b' = code b @ ys \<and> list_all P ys)"

fun is_extern_call :: "instr \<Rightarrow> bool" where
  "is_extern_call (Call r fn ps) = True"
| "is_extern_call (CallPtr r fp ps) = True"
| "is_extern_call i = False"


fun is_malloc_call :: "instr \<Rightarrow> bool" where
  "is_malloc_call (Call r fn ps) = (fn = ''DPPLmalloc_shared'')"
| "is_malloc_call i = False"

fun is_shape_check :: "instr \<Rightarrow> bool" where
  "is_shape_check (CallInternal r f ps) =
     (f \<in> {Dot_vv_check_args, Dot_mm_make_res, Dot_mv_make_res, Dot_vm_make_res,
            Matmul_make_res})"
| "is_shape_check i = False"

text \<open>The registers that hold the temporary copies made by \<^verbatim>\<open>array_copy\<close>.\<close>

fun copy_regs :: "instr list \<Rightarrow> operand list" where
  "copy_regs [] = []"
| "copy_regs (ArrayCopy r x # is) = Reg r # copy_regs is"
| "copy_regs (i # is) = copy_regs is"

text \<open>The constant addresses the generated code turns into function pointers.\<close>

fun called_addresses :: "instr list \<Rightarrow> int list" where
  "called_addresses [] = []"
| "called_addresses (IntToPtr r (Const ty a) # is) = a # called_addresses is"
| "called_addresses (i # is) = called_addresses is"




text \<open>
  A trace is balanced when every device buffer it allocates is freed exactly once later
  in the trace, and that free names the queue the buffer was allocated against.
\<close>

fun frees_of :: "nat \<Rightarrow> event list \<Rightarrow> rval list" where
  "frees_of bid [] = []"
| "frees_of bid (Free buf q # es) =
     (if buf = VDev bid then q # frees_of bid es else frees_of bid es)"
| "frees_of bid (e # es) = frees_of bid es"

fun balanced :: "event list \<Rightarrow> bool" where
  "balanced [] = True"
| "balanced (Malloc n q bid # es) = (frees_of bid es = [q] \<and> balanced es)"
| "balanced (e # es) = balanced es"

fun is_malloc :: "event \<Rightarrow> bool" where
  "is_malloc (Malloc n q bid) = True"
| "is_malloc e = False"

text \<open>The byte sizes of the copies that stage a host array into a device buffer.\<close>

fun staging_sizes :: "event list \<Rightarrow> int list" where
  "staging_sizes [] = []"
| "staging_sizes (Memcpy q (VDev bid) (VHost h) n # es) = n # staging_sizes es"
| "staging_sizes (e # es) = staging_sizes es"

section \<open>Concrete call sites\<close>

text \<open>
  A context in which the backend is present and every symbol resolves to one address,
  with the sizes of the usual element types, and a builder in the middle of a function.
\<close>

definition ctx_ex :: lowering_context where
  "ctx_ex = \<lparr>dpnp_importable = True,
             get_dpnp_fn_ptr = (\<lambda>fn tys. Some 4096),
             abi_sizeof = (\<lambda>ty. if ty = Scalar ''int32'' \<or> ty = Scalar ''float32'' then 4
                                 else 8),
             array_name = (\<lambda>ty. ''array''),
             checks_call_arity = False\<rparr>"

definition b_ex :: builder where
  "b_ex = \<lparr>fresh = 3, code = [Alloca 0 LLPtr, Alloca 1 LLPtr, Alloca 2 LLPtr], lookups = []\<rparr>"

definition float64 :: nbtype where "float64 = Scalar ''float64''"
definition int32 :: nbtype where "int32 = Scalar ''int32''"

definition sig_sum_i32 :: signature where
  "sig_sum_i32 = \<lparr>return_type = int64, sig_args = [Array int32 1 LayoutC]\<rparr>"

definition sig_sum_f64 :: signature where
  "sig_sum_f64 = \<lparr>return_type = float64, sig_args = [Array float64 1 LayoutA]\<rparr>"

definition sig_argmax_i32 :: signature where
  "sig_argmax_i32 = \<lparr>return_type = intp, sig_args = [Array int32 1 LayoutC]\<rparr>"

definition sig_mm :: signature where
  "sig_mm = \<lparr>return_type = Array float64 2 LayoutC,
             sig_args = [Array float64 2 LayoutC, Array float64 2 LayoutC]\<rparr>"

definition sig_mm_strided :: signature where
  "sig_mm_strided = \<lparr>return_type = Array float64 2 LayoutC,
                     sig_args = [Array float64 2 LayoutA, Array float64 2 LayoutC]\<rparr>"

definition sig_mv :: signature where
  "sig_mv = \<lparr>return_type = Array float64 1 LayoutC,
             sig_args = [Array float64 2 LayoutC, Array float64 1 LayoutC]\<rparr>"

definition sig_vv :: signature where
  "sig_vv = \<lparr>return_type = float64,
             sig_args = [Array float64 1 LayoutC, Array float64 1 LayoutC]\<rparr>"

definition sig_rank3_strided :: signature where
  "sig_rank3_strided = \<lparr>return_type = Array float64 3 LayoutC,
                        sig_args = [Array float64 3 LayoutA, Array float64 3 LayoutA]\<rparr>"

definition sig_cov :: "nat \<Rightarrow> signature" where
  "sig_cov nd = \<lparr>return_type = Array float64 2 LayoutC, sig_args = [Array float64 nd LayoutC]\<rparr>"

definition world_ex :: "rval list \<Rightarrow> world" where
  "world_ex vs = \<lparr>argv = vs, current_queue = 7, dev_read = (\<lambda>bid i. 255),
                  backend_out = (\<lambda>addr p. VBytes (replicate 8 1))\<rparr>"

section \<open>Closed forms of the builder helpers\<close>

lemma extend_extend: "extend (extend b n ys) m zs = extend b (n + m) (ys @ zs)"
  by (simp add: extend_def)

lemma fresh_extend: "fresh (extend b n ys) = fresh b + n"
  by (simp add: extend_def)

lemma code_extend: "code (extend b n ys) = code b @ ys"
  by (simp add: extend_def)

lemma lookups_extend: "lookups (extend b n ys) = lookups b"
  by (simp add: extend_def)

lemma extend_lookups: "(extend b n ys)\<lparr>lookups := l\<rparr> = extend (b\<lparr>lookups := l\<rparr>) n ys"
  by (simp add: extend_def)

lemma emitted_extend: "emitted b (extend b n ys) = ys"
  by (simp add: emitted_def extend_def)

lemma emitted_extend_lookups: "emitted b (extend (b\<lparr>lookups := l\<rparr>) n ys) = ys"
  by (simp add: emitted_def extend_def)

lemma emitted_same: "emitted b b = []"
  by (simp add: emitted_def)

lemma emitted_lookups: "emitted b (b\<lparr>lookups := l\<rparr>) = []"
  by (simp add: emitted_def)

lemma emit_extend: "emit mk b = (Reg (fresh b), extend b 1 [mk (fresh b)])"
  by (simp add: emit_def extend_def)

lemma store_extend: "store v p b = extend b 0 [Store v p]"
  by (simp add: store_def extend_def)

lemma decref_extend: "decref ty v b = extend b 0 [Decref v]"
  by (simp add: decref_def extend_def)

lemmas prim_defs =
  alloca_once_def load_def mul_def sext_def bitcast_def inttoptr_def call_def
  compile_internal_def array_copy_def get_constant_def make_array_def data_def nitems_def
  unpack_shape_def get_value_type_def ll_void_p_def ll_intp_t_def void_ptr_t_def

lemmas extend_simps =
  emit_extend store_extend decref_extend extend_extend fresh_extend lookups_extend
  extend_lookups emitted_extend emitted_extend_lookups emitted_same emitted_lookups prim_defs

lemma check_c_int_extend:
  "check_c_int n b = extend b 1 [CallInternal (fresh b) Check_c_int_impl [n]]"
  by (simp add: check_c_int_def extend_simps)

lemma get_total_size_of_array_extend:
  "get_total_size_of_array ctx aty ary b =
     (Reg (fresh b + 3),
      extend b 4
        [Alloca (fresh b) (LLInt 64),
         Mul (fresh b + 1) (ArrNitems (proxy_val ary)) (Const intp (int (abi_sizeof ctx aty))),
         Sext (fresh b + 2) (Reg (fresh b + 1)) (LLInt 64),
         Store (Reg (fresh b + 2)) (Reg (fresh b)),
         Load (fresh b + 3) (Reg (fresh b))])"
  by (simp add: get_total_size_of_array_def extend_simps) (simp add: extend_def)

lemma get_sycl_queue_extend:
  "get_sycl_queue b =
     (Reg (fresh b),
      extend b 2
        [Alloca (fresh b) LLPtr,
         Call (fresh b + 1) ''DPPLQueueMgr_GetCurrentQueue'' [],
         Store (Reg (fresh b + 1)) (Reg (fresh b))])"
  by (simp add: get_sycl_queue_def extend_simps) (simp add: extend_def)

lemma allocate_usm_extend:
  "allocate_usm sz q b =
     (Reg (fresh b + 3),
      extend b 4
        [Alloca (fresh b) LLPtr,
         Load (fresh b + 1) q,
         Call (fresh b + 2) ''DPPLmalloc_shared'' [sz, Reg (fresh b + 1)],
         Store (Reg (fresh b + 2)) (Reg (fresh b)),
         Load (fresh b + 3) (Reg (fresh b))])"
  by (simp add: allocate_usm_def extend_simps) (simp add: extend_def)

lemma copy_usm_extend:
  "copy_usm src dst sz q b =
     extend b 4
       [Load (fresh b) q,
        Bitcast (fresh b + 1) dst LLPtr,
        Bitcast (fresh b + 2) src LLPtr,
        Call (fresh b + 3) ''DPPLQueue_Memcpy''
          [Reg (fresh b), Reg (fresh b + 1), Reg (fresh b + 2), sz]]"
  by (simp add: copy_usm_def extend_simps) (simp add: extend_def)

lemma free_usm_extend:
  "free_usm buf q b =
     extend b 2
       [Load (fresh b) q,
        Call (fresh b + 1) ''DPPLfree_with_queue'' [buf, Reg (fresh b)]]"
  by (simp add: free_usm_def extend_simps) (simp add: extend_def)

lemma type_env_append: "type_env (xs @ ys) env = type_env ys (type_env xs env)"
  by (induction xs arbitrary: env) simp_all

lemma value_types_extend: "value_types (extend b n ys) = type_env ys (value_types b)"
  by (simp add: value_types_def extend_def type_env_append)

lemma value_types_lookups: "value_types (b\<lparr>lookups := l\<rparr>) = value_types b"
  by (simp add: value_types_def)

lemma call_ptr_extend:
  "call_ptr ctx fnty fp ps b =
     (case check_call_args (checks_call_arity ctx) (fn_args fnty)
             (map (operand_type (value_types b)) ps) of
        Some e \<Rightarrow> (Inl e, b)
      | None \<Rightarrow> (Inr (Reg (fresh b)), extend b 1 [CallPtr (fresh b) fp ps]))"
  by (simp add: call_ptr_def emit_extend split: option.splits)

lemma call_dpnp_extend:
  "call_dpnp ctx fn tn ps tys rt b =
     (if \<not> dpnp_importable ctx then (Some (ImportError ''dpnp_glue''), b)
      else case get_dpnp_fn_ptr ctx fn tn of
             None \<Rightarrow> (Some (UnsupportedTypeCombination fn tn),
                      b\<lparr>lookups := lookups b @ [(fn, tn)]\<rparr>)
           | Some fp \<Rightarrow>
               (case check_call_args (checks_call_arity ctx) tys
                       (map (operand_type ((fresh b, None) # value_types b)) ps) of
                  Some e \<Rightarrow>
                    (Some e, extend (b\<lparr>lookups := lookups b @ [(fn, tn)]\<rparr>) 1
                               [IntToPtr (fresh b) (Const int64 fp)])
                | None \<Rightarrow>
                    (None, extend (b\<lparr>lookups := lookups b @ [(fn, tn)]\<rparr>) 2
                             [IntToPtr (fresh b) (Const int64 fp),
                              CallPtr (fresh b + 1) (Reg (fresh b)) ps])))"
  by (simp add: call_dpnp_def call_ptr_extend extend_simps value_types_extend
        value_types_lookups Let_def split: option.splits)
     (simp add: extend_def)

lemma call_dpnp_not_importable:
  "\<not> dpnp_importable ctx \<Longrightarrow>
   call_dpnp ctx fn tn ps tys rt b = (Some (ImportError ''dpnp_glue''), b)"
  by (simp add: call_dpnp_extend)

lemma call_dpnp_unresolved:
  "dpnp_importable ctx \<Longrightarrow> get_dpnp_fn_ptr ctx fn tn = None \<Longrightarrow>
   call_dpnp ctx fn tn ps tys rt b =
     (Some (UnsupportedTypeCombination fn tn), b\<lparr>lookups := lookups b @ [(fn, tn)]\<rparr>)"
  by (simp add: call_dpnp_extend)

lemma call_dpnp_well_typed:
  "dpnp_importable ctx \<Longrightarrow> get_dpnp_fn_ptr ctx fn tn \<noteq> None \<Longrightarrow>
   check_call_args (checks_call_arity ctx) tys
     (map (operand_type ((fresh b, None) # value_types b)) ps) = None \<Longrightarrow>
   call_dpnp ctx fn tn ps tys rt b =
     (None, extend (b\<lparr>lookups := lookups b @ [(fn, tn)]\<rparr>) 2
              [IntToPtr (fresh b) (Const int64 (the (get_dpnp_fn_ptr ctx fn tn))),
               CallPtr (fresh b + 1) (Reg (fresh b)) ps])"
  by (auto simp add: call_dpnp_extend)

lemma call_dpnp_ill_typed:
  "dpnp_importable ctx \<Longrightarrow> get_dpnp_fn_ptr ctx fn tn \<noteq> None \<Longrightarrow>
   check_call_args (checks_call_arity ctx) tys
     (map (operand_type ((fresh b, None) # value_types b)) ps) \<noteq> None \<Longrightarrow>
   call_dpnp ctx fn tn ps tys rt b =
     (check_call_args (checks_call_arity ctx) tys
        (map (operand_type ((fresh b, None) # value_types b)) ps),
      extend (b\<lparr>lookups := lookups b @ [(fn, tn)]\<rparr>) 1
        [IntToPtr (fresh b) (Const int64 (the (get_dpnp_fn_ptr ctx fn tn)))])"
  by (auto simp add: call_dpnp_extend)

lemmas helper_extend =
  check_c_int_extend get_total_size_of_array_extend get_sycl_queue_extend allocate_usm_extend
  copy_usm_extend free_usm_extend
  call_dpnp_not_importable call_dpnp_unresolved call_dpnp_well_typed call_dpnp_ill_typed

lemmas lowering_simps =
  helper_extend extend_simps item_def Let_def value_types_extend value_types_lookups
  ll_void_def

lemma upt_2: "[0..<2] = [0, Suc 0]"
  by (simp add: upt_rec)

lemma module_global_sycl_queue: "module_global ''sycl_queue'' = Inl (NameError ''sycl_queue'')"
  by (simp add: module_global_def module_names_def)

section \<open>The matrix multiplication entry point\<close>

lemma matmul_dppl_rank2:
  assumes "sig_args sg = [Array da 2 la, Array db 2 lb]"
  shows "(\<exists>e. fst (matmul_dppl ctx sg args b) = Inl e)
       \<and> lookups (snd (matmul_dppl ctx sg args b)) = lookups b
       \<and> list_all (\<lambda>i. \<not> is_extern_call i) (emitted b (snd (matmul_dppl ctx sg args b)))
       \<and> (dpnp_importable ctx \<and> length args = 2 \<longrightarrow>
            fst (matmul_dppl ctx sg args b) = Inl (NameError ''sycl_queue''))"
proof (cases args)
  case Nil
  then show ?thesis using assms
    by (simp add: matmul_dppl_def make_contiguous_def ensure_dpnp_def emitted_same)
next
  case (Cons x xs)
  note c1 = this
  show ?thesis
  proof (cases xs)
    case Nil
    then show ?thesis using assms c1
      by (simp add: matmul_dppl_def make_contiguous_def ensure_dpnp_def lowering_simps)
  next
    case (Cons y ys)
    then show ?thesis using assms c1
      by (simp add: matmul_dppl_def make_contiguous_def ensure_dpnp_def lowering_simps
          upt_2 module_global_sycl_queue)
  qed
qed

lemma matmul_dppl_never_returns:
  assumes "registered Np_matmul (sig_args sg)"
  shows "\<exists>e. fst (matmul_dppl ctx sg (call_args (sig_args sg)) b) = Inl e"
proof -
  from assms obtain ta tb where tys: "sig_args sg = [ta, tb]" "is_Array ta" "is_Array tb"
    by (auto split: list.splits)
  then obtain da na la db nb lb where
    ab: "ta = Array da na la" "tb = Array db nb lb"
    by (auto simp: is_Array_def)
  show ?thesis
  proof (cases "na = 2 \<and> nb = 2")
    case True
    with tys ab show ?thesis
      using matmul_dppl_rank2 [of sg da la db lb ctx "call_args (sig_args sg)" b] by simp
  next
    case False
    with tys ab show ?thesis
      by (simp add: matmul_dppl_def make_contiguous_def ensure_dpnp_def lowering_simps
          call_args_def upt_2)
  qed
qed

text \<open>
  C9. For two operands of rank 2 the \<^verbatim>\<open>np.matmul\<close> lowering ends in an error, and it
  does so before it asks for any backend symbol and before it emits any call: no call to
  the queue manager, to the device allocator or copy, and no backend call. When the
  backend module is importable and the call site has its two operands, the error is the
  \<^verbatim>\<open>NameError\<close> for \<^verbatim>\<open>sycl_queue\<close>, the queue variable the function reads but never
  binds.
\<close>

theorem matmul_fails_before_resolution:
  assumes "sig_args sg = [Array da 2 la, Array db 2 lb]"
  shows "(\<exists>e. fst (matmul_dppl ctx sg args b) = Inl e)
       \<and> lookups (snd (matmul_dppl ctx sg args b)) = lookups b
       \<and> list_all (\<lambda>i. \<not> is_extern_call i) (emitted b (snd (matmul_dppl ctx sg args b)))
       \<and> (dpnp_importable ctx \<and> length args = 2 \<longrightarrow>
            fst (matmul_dppl ctx sg args b) = Inl (NameError ''sycl_queue''))"
  using assms by (rule matmul_dppl_rank2)

theorem matmul_fails_before_resolution_witness:
  "sig_args sig_mm = [Array float64 2 LayoutC, Array float64 2 LayoutC]
   \<and> fst (matmul_dppl ctx_ex sig_mm [Arg 0, Arg 1] b_ex) = Inl (NameError ''sycl_queue'')
   \<and> lookups (snd (matmul_dppl ctx_ex sig_mm [Arg 0, Arg 1] b_ex)) = []
   \<and> list_all (\<lambda>i. \<not> is_extern_call i)
        (emitted b_ex (snd (matmul_dppl ctx_ex sig_mm [Arg 0, Arg 1] b_ex)))"
  using matmul_fails_before_resolution
          [of sig_mm float64 LayoutC float64 LayoutC ctx_ex "[Arg 0, Arg 1]" b_ex]
  by (simp add: sig_mm_def ctx_ex_def b_ex_def)

section \<open>Running generated code step by step\<close>

lemma run_Cons_ok:
  "raised (exec ctx w i s) = None \<Longrightarrow> run ctx w (i # is) s = run ctx w is (exec ctx w i s)"
  by simp

lemma run_Cons_raise:
  "raised (exec ctx w i s) = Some e \<Longrightarrow> run ctx w (i # is) s = exec ctx w i s"
  by simp

declare run.simps(2) [simp del]

lemma le_bytes_zero: "le_bytes n 0 = replicate n 0"
  by (induction n) simp_all

lemmas run_defs =
  fail_def set_reg_def log_event_def new_host_array_def memcpy_to_slot_def call_extern_def
  havoc_def start_def on_shape_def on_shapes_def on_int_def

lemmas run_simps = run_Cons_ok run_Cons_raise run_defs le_bytes_zero

section \<open>The reductions\<close>

lemma sum_prod_returns:
  assumes "fst (common_sum_prod_impl ctx sg [Arg 0] fn b) = Inr res"
      and "sig_args sg = [Array dt nd lay]"
  shows "dpnp_importable ctx
       \<and> (\<exists>fp. get_dpnp_fn_ptr ctx fn [name ctx dt, ''NONE''] = Some fp)
       \<and> res = Reg (fresh b + 30)"
proof (cases "dpnp_importable ctx")
  case False
  with assms(2) have "fst (common_sum_prod_impl ctx sg [Arg 0] fn b) = Inl (ImportError ''dpnp_glue'')"
    by (simp add: common_sum_prod_impl_def lowering_simps)
  with assms(1) show ?thesis by simp
next
  case True
  show ?thesis
  proof (cases "get_dpnp_fn_ptr ctx fn [name ctx dt, ''NONE'']")
    case None
    with True assms(2) have "\<exists>e. fst (common_sum_prod_impl ctx sg [Arg 0] fn b) = Inl e"
      by (simp add: common_sum_prod_impl_def lowering_simps)
    with assms(1) show ?thesis by auto
  next
    case (Some fp)
    with True assms(2) have "fst (common_sum_prod_impl ctx sg [Arg 0] fn b) = Inr (Reg (fresh b + 30))"
      by (simp add: common_sum_prod_impl_def lowering_simps)
    with assms(1) True Some show ?thesis by simp
  qed
qed

lemma sum_prod_run_empty:
  assumes "sig_args sg = [Array dt nd lay]" and "dpnp_importable ctx"
      and "get_dpnp_fn_ptr ctx fn [name ctx dt, ''NONE''] = Some fp"
      and "argv w = VArr sh d # vs" and "prod_list sh = 0"
  shows "run ctx w (emitted b (snd (common_sum_prod_impl ctx sg [Arg 0] fn b))) (start k)
         = (start k)\<lparr>raised := Some (ValueError ''Passed Empty array'')\<rparr>"
  using assms
  by (simp add: common_sum_prod_impl_def lowering_simps)
     (simp add: run_simps array_size_checker_def)

lemma sum_prod_run_overflow:
  assumes "sig_args sg = [Array dt nd lay]" and "dpnp_importable ctx"
      and "get_dpnp_fn_ptr ctx fn [name ctx dt, ''NONE''] = Some fp"
      and "argv w = VArr sh d # vs" and "prod_list sh \<noteq> 0"
      and "\<not> abi_sizeof ctx dt \<le> abi_sizeof ctx (return_type sg)"
  shows "raised (run ctx w (emitted b (snd (common_sum_prod_impl ctx sg [Arg 0] fn b))) (start k))
         = Some UndefinedBehaviour"
  using assms
  by (simp add: common_sum_prod_impl_def lowering_simps)
     (simp add: run_simps array_size_checker_def)

lemma sum_prod_run_ill_typed:
  assumes "sig_args sg = [Array dt nd lay]" and "dpnp_importable ctx"
      and "get_dpnp_fn_ptr ctx fn [name ctx dt, ''NONE''] = Some fp"
      and "\<And>sh d vs. argv w \<noteq> VArr sh d # vs"
  shows "raised (run ctx w (emitted b (snd (common_sum_prod_impl ctx sg [Arg 0] fn b))) (start k))
         = Some UndefinedBehaviour"
proof (cases "argv w")
  case Nil
  with assms(1-3) show ?thesis
    by (simp add: common_sum_prod_impl_def lowering_simps) (simp add: run_simps)
next
  case (Cons v vs)
  with Cons assms(4) have "shape_of v = None" by (cases v) auto
  with Cons assms(1-3) show ?thesis
    by (simp add: common_sum_prod_impl_def lowering_simps) (simp add: run_simps)
qed

lemma sum_prod_run:
  fixes ctx sg fn b w k
  defines "s \<equiv> run ctx w (emitted b (snd (common_sum_prod_impl ctx sg [Arg 0] fn b))) (start k)"
  assumes "sig_args sg = [Array dt nd lay]" and "dpnp_importable ctx"
      and "get_dpnp_fn_ptr ctx fn [name ctx dt, ''NONE''] = Some fp"
      and "argv w = VArr sh d # vs" and "prod_list sh \<noteq> 0"
      and "abi_sizeof ctx dt \<le> abi_sizeof ctx (return_type sg)"
  shows "raised s = None"
    and "trace s =
           [GetQueue (current_queue w),
            Malloc (wrap64 (prod_list sh * int (abi_sizeof ctx dt))) (VQueue (current_queue w)) k,
            Memcpy (VQueue (current_queue w)) (VDev k) (VHost d)
              (wrap64 (prod_list sh * int (abi_sizeof ctx dt))),
            Malloc (int (abi_sizeof ctx dt)) (VQueue (current_queue w)) (Suc k),
            Invoke fp [VDev k, VDev (Suc k), VInt (prod_list sh)],
            Memcpy (VQueue (current_queue w)) (VSlot (fresh b + 15)) (VDev (Suc k))
              (int (abi_sizeof ctx dt)),
            Free (VDev k) (VQueue (current_queue w)),
            Free (VDev (Suc k)) (VQueue (current_queue w))]"
    and "regs s (fresh b + 30) =
           Some (VBytes (map (dev_read w (Suc k)) [0 ..< abi_sizeof ctx dt]
                         @ replicate (abi_sizeof ctx (return_type sg) - abi_sizeof ctx dt) 0))"
  using assms(2-)
  unfolding s_def
  by (simp_all add: common_sum_prod_impl_def lowering_simps)
     (simp_all add: run_simps array_size_checker_def)

lemma argmax_argmin_returns:
  assumes "fst (common_argmax_argmin_impl ctx sg [Arg 0] fn b) = Inr res"
      and "sig_args sg = [Array dt nd lay]"
  shows "dpnp_importable ctx
       \<and> (\<exists>fp. get_dpnp_fn_ptr ctx fn [name ctx dt, name ctx (return_type sg)] = Some fp)
       \<and> res = Reg (fresh b + 30)"
proof (cases "dpnp_importable ctx")
  case False
  with assms(2)
  have "fst (common_argmax_argmin_impl ctx sg [Arg 0] fn b) = Inl (ImportError ''dpnp_glue'')"
    by (simp add: common_argmax_argmin_impl_def lowering_simps)
  with assms(1) show ?thesis by simp
next
  case True
  show ?thesis
  proof (cases "get_dpnp_fn_ptr ctx fn [name ctx dt, name ctx (return_type sg)]")
    case None
    with True assms(2) have "\<exists>e. fst (common_argmax_argmin_impl ctx sg [Arg 0] fn b) = Inl e"
      by (simp add: common_argmax_argmin_impl_def lowering_simps)
    with assms(1) show ?thesis by auto
  next
    case (Some fp)
    with True assms(2)
    have "fst (common_argmax_argmin_impl ctx sg [Arg 0] fn b) = Inr (Reg (fresh b + 30))"
      by (simp add: common_argmax_argmin_impl_def lowering_simps)
    with assms(1) True Some show ?thesis by simp
  qed
qed

lemma argmax_argmin_run_empty:
  assumes "sig_args sg = [Array dt nd lay]" and "dpnp_importable ctx"
      and "get_dpnp_fn_ptr ctx fn [name ctx dt, name ctx (return_type sg)] = Some fp"
      and "argv w = VArr sh d # vs" and "prod_list sh = 0"
  shows "run ctx w (emitted b (snd (common_argmax_argmin_impl ctx sg [Arg 0] fn b))) (start k)
         = (start k)\<lparr>raised := Some (ValueError ''Passed Empty array'')\<rparr>"
  using assms
  by (simp add: common_argmax_argmin_impl_def lowering_simps)
     (simp add: run_simps array_size_checker_def)

lemma argmax_argmin_run_ill_typed:
  assumes "sig_args sg = [Array dt nd lay]" and "dpnp_importable ctx"
      and "get_dpnp_fn_ptr ctx fn [name ctx dt, name ctx (return_type sg)] = Some fp"
      and "\<And>sh d vs. argv w \<noteq> VArr sh d # vs"
  shows "raised (run ctx w (emitted b (snd (common_argmax_argmin_impl ctx sg [Arg 0] fn b)))
                   (start k))
         = Some UndefinedBehaviour"
proof (cases "argv w")
  case Nil
  with assms(1-3) show ?thesis
    by (simp add: common_argmax_argmin_impl_def lowering_simps) (simp add: run_simps)
next
  case (Cons v vs)
  with Cons assms(4) have "shape_of v = None" by (cases v) auto
  with Cons assms(1-3) show ?thesis
    by (simp add: common_argmax_argmin_impl_def lowering_simps) (simp add: run_simps)
qed

lemma argmax_argmin_run:
  fixes ctx sg fn b w k
  defines "s \<equiv> run ctx w (emitted b (snd (common_argmax_argmin_impl ctx sg [Arg 0] fn b)))
                  (start k)"
  assumes "sig_args sg = [Array dt nd lay]" and "dpnp_importable ctx"
      and "get_dpnp_fn_ptr ctx fn [name ctx dt, name ctx (return_type sg)] = Some fp"
      and "argv w = VArr sh d # vs" and "prod_list sh \<noteq> 0"
  shows "raised s = None"
    and "trace s =
           [GetQueue (current_queue w),
            Malloc (wrap64 (prod_list sh * int (abi_sizeof ctx dt))) (VQueue (current_queue w)) k,
            Memcpy (VQueue (current_queue w)) (VDev k) (VHost d)
              (wrap64 (prod_list sh * int (abi_sizeof ctx dt))),
            Malloc (int (abi_sizeof ctx (return_type sg))) (VQueue (current_queue w)) (Suc k),
            Invoke fp [VDev k, VDev (Suc k), VInt (prod_list sh)],
            Memcpy (VQueue (current_queue w)) (VSlot (fresh b + 15)) (VDev (Suc k))
              (int (abi_sizeof ctx (return_type sg))),
            Free (VDev k) (VQueue (current_queue w)),
            Free (VDev (Suc k)) (VQueue (current_queue w))]"
    and "regs s (fresh b + 30) =
           Some (VBytes (map (dev_read w (Suc k)) [0 ..< abi_sizeof ctx (return_type sg)]))"
  using assms(2-)
  unfolding s_def
  by (simp_all add: common_argmax_argmin_impl_def lowering_simps)
     (simp_all add: run_simps array_size_checker_def)

section \<open>Code without device allocations\<close>

lemma trace_fail: "trace (fail e s) = trace s"
  by (simp add: fail_def)

lemma trace_set_reg: "trace (set_reg r v s) = trace s"
  by (simp add: set_reg_def)

lemma trace_log_event: "trace (log_event ev s) = trace s @ [ev]"
  by (simp add: log_event_def)

lemma trace_new_host_array: "trace (new_host_array r sh s) = trace s @ [NewArray sh (next_id s)]"
  by (simp add: new_host_array_def set_reg_def log_event_def)

lemma trace_memcpy_to_slot: "trace (memcpy_to_slot ctx w p src n s) = trace s"
  by (simp add: memcpy_to_slot_def fail_def split: option.splits rval.splits prod.splits)

lemmas trace_simps =
  trace_fail trace_set_reg trace_log_event trace_new_host_array trace_memcpy_to_slot

lemma call_extern_no_malloc:
  "fn \<noteq> ''DPPLmalloc_shared'' \<Longrightarrow>
   filter is_malloc (trace (call_extern ctx w r fn vs s)) = filter is_malloc (trace s)"
  by (simp add: call_extern_def trace_simps Let_def split: list.splits rval.splits)

lemma exec_no_malloc:
  "\<not> is_malloc_call i \<Longrightarrow>
   filter is_malloc (trace (exec ctx w i s)) = filter is_malloc (trace s)"
  by (cases i)
     (simp_all add: trace_simps call_extern_no_malloc
        split: option.splits rval.splits prod.splits sum.splits pyres.splits)

lemma run_no_malloc:
  "list_all (\<lambda>i. \<not> is_malloc_call i) is \<Longrightarrow>
   filter is_malloc (trace (run ctx w is s)) = filter is_malloc (trace s)"
proof (induction "is" arbitrary: s)
  case Nil
  then show ?case by simp
next
  case (Cons i "is")
  then show ?case
    by (simp add: run.simps(2) exec_no_malloc Let_def)
qed

lemma balanced_no_malloc: "filter is_malloc t = [] \<Longrightarrow> balanced t"
  by (induction t rule: balanced.induct) simp_all

lemma no_malloc_balanced:
  assumes "list_all (\<lambda>i. \<not> is_malloc_call i) is"
  shows "balanced (trace (run ctx w is (start k)))"
proof -
  have "filter is_malloc (trace (run ctx w is (start k))) = []"
    using run_no_malloc [OF assms, of ctx w "start k"] by (simp add: start_def)
  then show ?thesis by (rule balanced_no_malloc)
qed

lemma extends_with_refl: "extends_with P b b"
  by (simp add: extends_with_def)

lemma extends_with_lookups: "extends_with P b (b\<lparr>lookups := l\<rparr>)"
  by (simp add: extends_with_def)

lemma extends_with_trans:
  "extends_with P b b1 \<Longrightarrow> extends_with P b1 b2 \<Longrightarrow> extends_with P b b2"
  by (auto simp: extends_with_def)

lemma extends_with_extend: "list_all P ys \<Longrightarrow> extends_with P b (extend b n ys)"
  by (simp add: extends_with_def extend_def)

lemma extends_with_extend_lookups:
  "list_all P ys \<Longrightarrow> extends_with P b (extend (b\<lparr>lookups := l\<rparr>) n ys)"
  by (simp add: extends_with_def extend_def)

lemma extends_with_emitted: "extends_with P b b' \<Longrightarrow> list_all P (emitted b b')"
  by (auto simp: extends_with_def emitted_def)

lemmas extends_with_simps =
  extends_with_refl extends_with_lookups extends_with_extend extends_with_extend_lookups

lemma make_contiguous_loop_extends:
  assumes "\<And>r x. P (ArrayCopy r x)"
  shows "extends_with P b (snd (make_contiguous_loop zs b))"
proof (induction zs arbitrary: b)
  case Nil
  show ?case by (simp add: extends_with_refl)
next
  case (Cons z zs)
  obtain ty v where z: "z = (ty, v)" by (cases z)
  show ?case
  proof (cases "\<not> is_Array ty \<or> layout ty \<in> {LayoutC, LayoutF}")
    case True
    with z Cons [of b] show ?thesis
      by (simp add: split_beta)
  next
    case False
    have "extends_with P b (extend b 1 [ArrayCopy (fresh b) v])"
      by (simp add: extends_with_extend assms)
    from extends_with_trans [OF this Cons [of "extend b 1 [ArrayCopy (fresh b) v]"]]
    show ?thesis using False z
      by (simp add: split_beta Let_def array_copy_def emit_extend)
  qed
qed

lemma make_contiguous_release_extends:
  assumes "\<And>x. P (Decref x)"
  shows "extends_with P b (make_contiguous_release cs b)"
proof (induction cs arbitrary: b)
  case Nil
  show ?case by (simp add: extends_with_refl)
next
  case (Cons c cs)
  obtain ty v where c: "c = (ty, v)" by (cases c)
  have "extends_with P b (extend b 0 [Decref v])"
    by (simp add: extends_with_extend assms)
  from extends_with_trans [OF this Cons [of "extend b 0 [Decref v]"]]
  show ?case using c by (simp add: decref_extend)
qed

lemma make_contiguous_extends:
  assumes body: "\<And>sg' args' b1. extends_with P b1 (snd (body sg' args' b1))"
      and "\<And>r x. P (ArrayCopy r x)" and "\<And>x. P (Decref x)"
  shows "extends_with P b (snd (make_contiguous sg args body b))"
proof -
  obtain newtys newargs copies b1 where
    loop: "make_contiguous_loop (zip (sig_args sg) args) b = ((newtys, newargs, copies), b1)"
    by (metis prod.exhaust)
  have e1: "extends_with P b b1"
    using make_contiguous_loop_extends [of P b "zip (sig_args sg) args"] assms(2) loop by simp
  let ?sg = "\<lparr>return_type = return_type sg, sig_args = newtys\<rparr>"
  obtain r b2 where bd: "body ?sg newargs b1 = (r, b2)" by (metis prod.exhaust)
  have e2: "extends_with P b1 b2" using body [of b1 ?sg newargs] bd by simp
  show ?thesis
  proof (cases r)
    case (Inl e)
    with loop bd have "snd (make_contiguous sg args body b) = b2"
      by (simp add: make_contiguous_def)
    with e1 e2 show ?thesis by (auto intro: extends_with_trans)
  next
    case (Inr v)
    with loop bd have "snd (make_contiguous sg args body b) = make_contiguous_release copies b2"
      by (simp add: make_contiguous_def)
    moreover have "extends_with P b2 (make_contiguous_release copies b2)"
      by (rule make_contiguous_release_extends) (rule assms(3))
    ultimately show ?thesis using e1 e2 by (auto intro: extends_with_trans)
  qed
qed

lemma dot_2_mm_no_malloc:
  "extends_with (\<lambda>i. \<not> is_malloc_call i) b (snd (dot_2_mm ctx sg args b))"
  by (simp add: dot_2_mm_def lowering_simps call_dpnp_extend extends_with_simps
      split: sum.splits prod.splits option.splits)

lemma dot_2_mv_no_malloc:
  "extends_with (\<lambda>i. \<not> is_malloc_call i) b (snd (dot_2_mv ctx sg args b))"
  by (simp add: dot_2_mv_def lowering_simps call_dpnp_extend extends_with_simps
      split: sum.splits prod.splits option.splits)

lemma dot_2_vm_no_malloc:
  "extends_with (\<lambda>i. \<not> is_malloc_call i) b (snd (dot_2_vm ctx sg args b))"
  by (simp add: dot_2_vm_def lowering_simps call_dpnp_extend extends_with_simps
      split: sum.splits prod.splits option.splits)

lemma dot_2_vv_no_malloc:
  "extends_with (\<lambda>i. \<not> is_malloc_call i) b (snd (dot_2_vv ctx sg args b))"
  by (simp add: dot_2_vv_def lowering_simps call_dpnp_extend extends_with_simps
      split: sum.splits prod.splits option.splits)

lemma dot_dppl_no_malloc:
  "extends_with (\<lambda>i. \<not> is_malloc_call i) b (snd (dot_dppl ctx sg args b))"
proof (cases "ensure_dpnp ctx ''dot''")
  case (Some e)
  then show ?thesis by (simp add: dot_dppl_def extends_with_refl)
next
  case None
  then show ?thesis
    unfolding dot_dppl_def
    by (simp del: One_nat_def)
       (rule make_contiguous_extends;
        simp add: Let_def dot_2_mm_no_malloc dot_2_mv_no_malloc dot_2_vm_no_malloc
          dot_2_vv_no_malloc extends_with_refl)
qed

lemma array_argsort_no_malloc:
  "extends_with (\<lambda>i. \<not> is_malloc_call i) b (snd (array_argsort ctx sg args b))"
  by (simp add: array_argsort_def lowering_simps call_dpnp_extend extends_with_simps
      split: sum.splits prod.splits option.splits)

lemma array_cov_no_malloc:
  "extends_with (\<lambda>i. \<not> is_malloc_call i) b (snd (array_cov ctx sg args b))"
  by (simp add: array_cov_def lowering_simps call_dpnp_extend extends_with_simps
      split: sum.splits prod.splits option.splits)

lemma sum_prod_balanced:
  fixes ctx sg fn b w k
  defines "s \<equiv> run ctx w (emitted b (snd (common_sum_prod_impl ctx sg [Arg 0] fn b))) (start k)"
  assumes sg: "sig_args sg = [Array dt nd lay]"
      and ret: "fst (common_sum_prod_impl ctx sg [Arg 0] fn b) = Inr res"
      and nub: "raised s \<noteq> Some UndefinedBehaviour"
  shows "balanced (trace s)"
proof -
  from sum_prod_returns [OF ret sg] obtain fp where
    imp: "dpnp_importable ctx" and fp: "get_dpnp_fn_ptr ctx fn [name ctx dt, ''NONE''] = Some fp"
    by auto
  show ?thesis
  proof (cases "\<exists>sh d vs. argv w = VArr sh d # vs")
    case False
    then have "raised s = Some UndefinedBehaviour"
      unfolding s_def using sum_prod_run_ill_typed [OF sg imp fp] by blast
    with nub show ?thesis by simp
  next
    case True
    then obtain sh d vs where av: "argv w = VArr sh d # vs" by blast
    show ?thesis
    proof (cases "prod_list sh = 0")
      case True
      then show ?thesis
        unfolding s_def using sum_prod_run_empty [OF sg imp fp av] by (simp add: start_def)
    next
      case ne: False
      show ?thesis
      proof (cases "abi_sizeof ctx dt \<le> abi_sizeof ctx (return_type sg)")
        case True
        show ?thesis
          unfolding s_def using sum_prod_run(2) [OF sg imp fp av ne True] by simp
      next
        case False
        then have "raised s = Some UndefinedBehaviour"
          unfolding s_def using sum_prod_run_overflow [OF sg imp fp av ne] by blast
        with nub show ?thesis by simp
      qed
    qed
  qed
qed

lemma argmax_argmin_balanced:
  fixes ctx sg fn b w k
  defines "s \<equiv> run ctx w (emitted b (snd (common_argmax_argmin_impl ctx sg [Arg 0] fn b)))
                  (start k)"
  assumes sg: "sig_args sg = [Array dt nd lay]"
      and ret: "fst (common_argmax_argmin_impl ctx sg [Arg 0] fn b) = Inr res"
      and nub: "raised s \<noteq> Some UndefinedBehaviour"
  shows "balanced (trace s)"
proof -
  from argmax_argmin_returns [OF ret sg] obtain fp where
    imp: "dpnp_importable ctx"
    and fp: "get_dpnp_fn_ptr ctx fn [name ctx dt, name ctx (return_type sg)] = Some fp"
    by auto
  show ?thesis
  proof (cases "\<exists>sh d vs. argv w = VArr sh d # vs")
    case False
    then have "raised s = Some UndefinedBehaviour"
      unfolding s_def using argmax_argmin_run_ill_typed [OF sg imp fp] by blast
    with nub show ?thesis by simp
  next
    case True
    then obtain sh d vs where av: "argv w = VArr sh d # vs" by blast
    show ?thesis
    proof (cases "prod_list sh = 0")
      case True
      then show ?thesis
        unfolding s_def using argmax_argmin_run_empty [OF sg imp fp av] by (simp add: start_def)
    next
      case ne: False
      show ?thesis
        unfolding s_def using argmax_argmin_run(2) [OF sg imp fp av ne] by simp
    qed
  qed
qed

lemma array_sum_common:
  "fst (array_sum ctx sg args b) = Inr res \<Longrightarrow>
   array_sum ctx sg args b = common_sum_prod_impl ctx sg args ''dpnp_sum'' b"
  by (simp add: array_sum_def ensure_dpnp_def split: if_splits)

lemma array_prod_common:
  "fst (array_prod ctx sg args b) = Inr res \<Longrightarrow>
   array_prod ctx sg args b = common_sum_prod_impl ctx sg args ''dpnp_prod'' b"
  by (simp add: array_prod_def ensure_dpnp_def split: if_splits)

lemma array_argmax_common:
  "fst (array_argmax ctx sg args b) = Inr res \<Longrightarrow>
   array_argmax ctx sg args b = common_argmax_argmin_impl ctx sg args ''dpnp_argmax'' b"
  by (simp add: array_argmax_def ensure_dpnp_def split: if_splits)

lemma array_argmin_common:
  "fst (array_argmin ctx sg args b) = Inr res \<Longrightarrow>
   array_argmin ctx sg args b = common_argmax_argmin_impl ctx sg args ''dpnp_argmax'' b"
  by (simp add: array_argmin_def ensure_dpnp_def split: if_splits)

lemma registered_unary:
  assumes "registered opn tys" and "opn \<in> {Np_sum, Np_prod, Np_argmax, Np_argmin, Np_cov}"
  shows "\<exists>dt nd lay. tys = [Array dt nd lay]"
proof -
  from assms obtain a where "tys = [a]" "is_Array a"
    by (cases opn) (auto split: list.splits)
  then show ?thesis by (cases a) auto
qed

text \<open>
  C1. Take any registered operation whose lowering returns a result, and run the code
  that lowering generated. In every run that stays within defined behaviour, each
  device buffer obtained from \<^verbatim>\<open>DPPLmalloc_shared\<close> is released by exactly one later
  \<^verbatim>\<open>DPPLfree_with_queue\<close>, and that call names the queue the buffer was allocated
  against. The frees are part of the generated code of the same lowering, so they are
  issued before its result is used.
\<close>

theorem device_buffers_freed_exactly_once:
  fixes opn ctx sg b w k
  defines "s \<equiv> run_lowering (lower_builtin opn) ctx sg (call_args (sig_args sg)) b w k"
  assumes reg: "registered opn (sig_args sg)"
      and ret: "fst (lower_builtin opn ctx sg (call_args (sig_args sg)) b) = Inr res"
      and nub: "raised s \<noteq> Some UndefinedBehaviour"
  shows "balanced (trace s)"
proof -
  have unary: "call_args (sig_args sg) = [Arg 0]" if "sig_args sg = [ty]" for ty
    using that by (simp add: call_args_def)
  show ?thesis
  proof (cases opn)
    case Np_dot
    show ?thesis unfolding s_def run_lowering_def Np_dot
      by (simp add: no_malloc_balanced extends_with_emitted dot_dppl_no_malloc)
  next
    case Np_matmul
    with reg ret matmul_dppl_never_returns [of sg ctx b] show ?thesis by auto
  next
    case Np_sum
    with registered_unary [OF reg] obtain dt nd lay where sg: "sig_args sg = [Array dt nd lay]"
      by auto
    from ret have r: "fst (array_sum ctx sg [Arg 0] b) = Inr res"
      by (simp add: Np_sum unary [OF sg])
    show ?thesis
      using sum_prod_balanced [OF sg, of ctx "''dpnp_sum''" b res w k] r nub
      by (simp add: s_def run_lowering_def Np_sum unary [OF sg] array_sum_common [OF r])
  next
    case Np_prod
    with registered_unary [OF reg] obtain dt nd lay where sg: "sig_args sg = [Array dt nd lay]"
      by auto
    from ret have r: "fst (array_prod ctx sg [Arg 0] b) = Inr res"
      by (simp add: Np_prod unary [OF sg])
    show ?thesis
      using sum_prod_balanced [OF sg, of ctx "''dpnp_prod''" b res w k] r nub
      by (simp add: s_def run_lowering_def Np_prod unary [OF sg] array_prod_common [OF r])
  next
    case Np_argmax
    with registered_unary [OF reg] obtain dt nd lay where sg: "sig_args sg = [Array dt nd lay]"
      by auto
    from ret have r: "fst (array_argmax ctx sg [Arg 0] b) = Inr res"
      by (simp add: Np_argmax unary [OF sg])
    show ?thesis
      using argmax_argmin_balanced [OF sg, of ctx "''dpnp_argmax''" b res w k] r nub
      by (simp add: s_def run_lowering_def Np_argmax unary [OF sg] array_argmax_common [OF r])
  next
    case Np_argmin
    with registered_unary [OF reg] obtain dt nd lay where sg: "sig_args sg = [Array dt nd lay]"
      by auto
    from ret have r: "fst (array_argmin ctx sg [Arg 0] b) = Inr res"
      by (simp add: Np_argmin unary [OF sg])
    show ?thesis
      using argmax_argmin_balanced [OF sg, of ctx "''dpnp_argmax''" b res w k] r nub
      by (simp add: s_def run_lowering_def Np_argmin unary [OF sg] array_argmin_common [OF r])
  next
    case Np_argsort
    show ?thesis unfolding s_def run_lowering_def Np_argsort
      by (simp add: no_malloc_balanced extends_with_emitted array_argsort_no_malloc)
  next
    case Np_cov
    show ?thesis unfolding s_def run_lowering_def Np_cov
      by (simp add: no_malloc_balanced extends_with_emitted array_cov_no_malloc)
  qed
qed

lemmas example_defs =
  ctx_ex_def b_ex_def world_ex_def sig_sum_i32_def sig_sum_f64_def sig_argmax_i32_def
  sig_mm_def sig_mm_strided_def sig_mv_def sig_vv_def sig_rank3_strided_def sig_cov_def
  float64_def int32_def int64_def intp_def call_args_def run_lowering_def

theorem device_buffers_freed_exactly_once_witness:
  "registered Np_sum (sig_args sig_sum_i32)
   \<and> fst (lower_builtin Np_sum ctx_ex sig_sum_i32 (call_args (sig_args sig_sum_i32)) b_ex)
       = Inr (Reg 33)
   \<and> trace (run_lowering (lower_builtin Np_sum) ctx_ex sig_sum_i32
              (call_args (sig_args sig_sum_i32)) b_ex (world_ex [VArr [3] 100]) 0)
       = [GetQueue 7, Malloc 12 (VQueue 7) 0, Memcpy (VQueue 7) (VDev 0) (VHost 100) 12,
          Malloc 4 (VQueue 7) 1, Invoke 4096 [VDev 0, VDev 1, VInt 3],
          Memcpy (VQueue 7) (VSlot 18) (VDev 1) 4, Free (VDev 0) (VQueue 7),
          Free (VDev 1) (VQueue 7)]
   \<and> balanced (trace (run_lowering (lower_builtin Np_sum) ctx_ex sig_sum_i32
                (call_args (sig_args sig_sum_i32)) b_ex (world_ex [VArr [3] 100]) 0))"
proof -
  let ?s = "run_lowering (lower_builtin Np_sum) ctx_ex sig_sum_i32
              (call_args (sig_args sig_sum_i32)) b_ex (world_ex [VArr [3] 100]) 0"
  have h1: "registered Np_sum (sig_args sig_sum_i32)"
    by (simp add: example_defs)
  have h2: "fst (lower_builtin Np_sum ctx_ex sig_sum_i32 (call_args (sig_args sig_sum_i32)) b_ex)
            = Inr (Reg 33)"
    by (simp add: example_defs array_sum_def ensure_dpnp_def common_sum_prod_impl_def
        lowering_simps)
  have h3: "raised ?s \<noteq> Some UndefinedBehaviour"
    by (simp add: example_defs array_sum_def ensure_dpnp_def common_sum_prod_impl_def
        lowering_simps emitted_def code_extend)
       (simp add: run_simps array_size_checker_def wrap64_def)
  have h4: "trace ?s =
       [GetQueue 7, Malloc 12 (VQueue 7) 0, Memcpy (VQueue 7) (VDev 0) (VHost 100) 12,
        Malloc 4 (VQueue 7) 1, Invoke 4096 [VDev 0, VDev 1, VInt 3],
        Memcpy (VQueue 7) (VSlot 18) (VDev 1) 4, Free (VDev 0) (VQueue 7),
        Free (VDev 1) (VQueue 7)]"
    by (simp add: example_defs array_sum_def ensure_dpnp_def common_sum_prod_impl_def
        lowering_simps emitted_def code_extend)
       (simp add: run_simps array_size_checker_def wrap64_def)
  from device_buffers_freed_exactly_once [OF h1 h2 h3] h1 h2 h4 show ?thesis
    by simp
qed

section \<open>What the reductions return\<close>






lemmas eval_simps = lowering_simps emitted_def code_extend ensure_dpnp_def


text \<open>
  C8. With the backend importable, the argmin lowering is the argmax lowering: on the
  same signature, operand and builder the two return the same result and the same
  builder. Both ask the symbol table for \<^verbatim>\<open>"dpnp_argmax"\<close> with the element type name
  and the return type name, and when that symbol resolves, the one address turned into
  a function pointer in the generated code is the same for both.
\<close>

theorem argmin_resolves_argmax_symbol:
  assumes imp: "dpnp_importable ctx" and sg: "sig_args sg = [Array dt nd lay]"
  shows "array_argmin ctx sg [x] b = array_argmax ctx sg [x] b
       \<and> lookups (snd (array_argmin ctx sg [x] b))
           = lookups b @ [(''dpnp_argmax'', [name ctx dt, name ctx (return_type sg)])]
       \<and> (\<forall>fp. get_dpnp_fn_ptr ctx ''dpnp_argmax'' [name ctx dt, name ctx (return_type sg)]
                 = Some fp \<longrightarrow>
               called_addresses (emitted b (snd (array_argmin ctx sg [x] b))) = [fp]
             \<and> called_addresses (emitted b (snd (array_argmax ctx sg [x] b))) = [fp])"
proof -
  have same: "array_argmin ctx sg [x] b = array_argmax ctx sg [x] b"
    using imp by (simp add: array_argmin_def array_argmax_def ensure_dpnp_def)
  have common: "array_argmax ctx sg [x] b
                = common_argmax_argmin_impl ctx sg [x] ''dpnp_argmax'' b"
    using imp by (simp add: array_argmax_def ensure_dpnp_def)
  have look: "lookups (snd (common_argmax_argmin_impl ctx sg [x] ''dpnp_argmax'' b))
              = lookups b @ [(''dpnp_argmax'', [name ctx dt, name ctx (return_type sg)])]"
  proof (cases "get_dpnp_fn_ptr ctx ''dpnp_argmax'' [name ctx dt, name ctx (return_type sg)]")
    case None
    with imp sg show ?thesis
      by (simp add: common_argmax_argmin_impl_def lowering_simps)
  next
    case (Some fp)
    with imp sg show ?thesis
      by (simp add: common_argmax_argmin_impl_def lowering_simps)
  qed
  have addr: "called_addresses
                (emitted b (snd (common_argmax_argmin_impl ctx sg [x] ''dpnp_argmax'' b))) = [fp]"
    if "get_dpnp_fn_ptr ctx ''dpnp_argmax'' [name ctx dt, name ctx (return_type sg)] = Some fp"
    for fp
    using imp sg that
    by (simp add: common_argmax_argmin_impl_def lowering_simps int64_def)
  from same common look addr show ?thesis by simp
qed

theorem argmin_resolves_argmax_symbol_witness:
  "dpnp_importable ctx_ex
   \<and> sig_args sig_argmax_i32 = [Array int32 1 LayoutC]
   \<and> array_argmin ctx_ex sig_argmax_i32 [Arg 0] b_ex
       = array_argmax ctx_ex sig_argmax_i32 [Arg 0] b_ex
   \<and> lookups (snd (array_argmin ctx_ex sig_argmax_i32 [Arg 0] b_ex))
       = [(''dpnp_argmax'', [''int32'', ''int64''])]
   \<and> called_addresses (emitted b_ex (snd (array_argmin ctx_ex sig_argmax_i32 [Arg 0] b_ex)))
       = [4096]"
proof -
  have h1: "dpnp_importable ctx_ex" by (simp add: ctx_ex_def)
  have h2: "sig_args sig_argmax_i32 = [Array int32 1 LayoutC]"
    by (simp add: sig_argmax_i32_def)
  have nm: "name ctx_ex int32 = ''int32''" "name ctx_ex (return_type sig_argmax_i32) = ''int64''"
    by (simp_all add: example_defs)
  have tbl: "get_dpnp_fn_ptr ctx_ex ''dpnp_argmax'' [''int32'', ''int64''] = Some 4096"
    by (simp add: ctx_ex_def)
  have lk: "lookups b_ex = []" by (simp add: b_ex_def)
  note inst = argmin_resolves_argmax_symbol [OF h1 h2, of "Arg 0" b_ex, unfolded nm lk append_Nil]
  from inst tbl
  have "array_argmin ctx_ex sig_argmax_i32 [Arg 0] b_ex
          = array_argmax ctx_ex sig_argmax_i32 [Arg 0] b_ex"
    and "lookups (snd (array_argmin ctx_ex sig_argmax_i32 [Arg 0] b_ex))
          = [(''dpnp_argmax'', [''int32'', ''int64''])]"
    and "called_addresses (emitted b_ex (snd (array_argmin ctx_ex sig_argmax_i32 [Arg 0] b_ex)))
          = [4096]"
    by blast+
  with h1 h2 show ?thesis by blast
qed

section \<open>The width of the sum and prod result\<close>






section \<open>Byte sizes of the staging copies\<close>

lemma wrap64_id: "- (2 ^ 63) \<le> x \<Longrightarrow> x < 2 ^ 63 \<Longrightarrow> wrap64 x = x"
  by (simp add: wrap64_def)

lemma check_c_int_impl_rejects:
  "(check_c_int_impl n = Inl (OverflowError ''array size too large to fit in C int''))
   = (n > 2 ^ 31 - 1)"
  by (simp add: check_c_int_impl_def)

lemma sum_prod_staging:
  assumes "sig_args sg = [Array dt nd lay]" and "dpnp_importable ctx"
      and "get_dpnp_fn_ptr ctx fn [name ctx dt, ''NONE''] = Some fp"
      and "argv w = VArr sh d # vs" and "prod_list sh \<noteq> 0"
  shows "staging_sizes
           (trace (run ctx w (emitted b (snd (common_sum_prod_impl ctx sg [Arg 0] fn b)))
                     (start k)))
         = [wrap64 (prod_list sh * int (abi_sizeof ctx dt))]"
proof (cases "abi_sizeof ctx dt \<le> abi_sizeof ctx (return_type sg)")
  case True
  from sum_prod_run(2) [OF assms True, of b k] show ?thesis by simp
next
  case False
  with assms show ?thesis
    by (simp add: common_sum_prod_impl_def lowering_simps)
       (simp add: run_simps array_size_checker_def)
qed

lemma argmax_argmin_staging:
  assumes "sig_args sg = [Array dt nd lay]" and "dpnp_importable ctx"
      and "get_dpnp_fn_ptr ctx fn [name ctx dt, name ctx (return_type sg)] = Some fp"
      and "argv w = VArr sh d # vs" and "prod_list sh \<noteq> 0"
  shows "staging_sizes
           (trace (run ctx w (emitted b (snd (common_argmax_argmin_impl ctx sg [Arg 0] fn b)))
                     (start k)))
         = [wrap64 (prod_list sh * int (abi_sizeof ctx dt))]"
  using argmax_argmin_run(2) [OF assms, of b k] by simp

lemma dot_dppl_importable:
  assumes "fst (dot_dppl ctx sg args b) = Inr res"
  shows "dpnp_importable ctx"
proof (rule ccontr)
  assume "\<not> dpnp_importable ctx"
  then have "\<exists>e. fst (dot_dppl ctx sg args b) = Inl e"
    by (simp add: dot_dppl_def ensure_dpnp_def)
  with assms show False by auto
qed

lemma contiguous_layout: "l \<noteq> LayoutA \<Longrightarrow> l \<in> {LayoutC, LayoutF}"
  by (cases l) simp_all

lemma make_contiguous_loop_contiguous2:
  assumes "la \<noteq> LayoutA" and "lb \<noteq> LayoutA"
  shows "make_contiguous_loop [(Array da na la, x), (Array db nb lb, y)] b
         = (([Array da na la, Array db nb lb], [x, y], []), b)"
  using contiguous_layout [OF assms(1)] contiguous_layout [OF assms(2)] by simp

lemma case_result_id:
  "(case p of (Inl e, b2) \<Rightarrow> (Inl e, b2) | (Inr v, b2) \<Rightarrow> (Inr v, b2)) = p"
  by (cases p; cases "fst p") auto

lemma make_contiguous_contiguous2:
  assumes "sig_args sg = [Array da na la, Array db nb lb]"
      and "la \<noteq> LayoutA" and "lb \<noteq> LayoutA"
  shows "make_contiguous sg [x, y] body b = body sg [x, y] b"
proof -
  have sg': "\<lparr>return_type = return_type sg, sig_args = [Array da na la, Array db nb lb]\<rparr> = sg"
    using assms(1) by (cases sg) simp
  show ?thesis
    unfolding make_contiguous_def
    by (cases "body sg [x, y] b"; cases "fst (body sg [x, y] b)")
       (simp_all add: assms(1) make_contiguous_loop_contiguous2 [OF assms(2,3)] sg'
          del: make_contiguous_loop.simps)
qed

lemma dot_dppl_vv_contiguous:
  assumes "sig_args sg = [Array da 1 la, Array db 1 lb]"
      and "la \<noteq> LayoutA" and "lb \<noteq> LayoutA" and "dpnp_importable ctx"
  shows "dot_dppl ctx sg [x, y] b = dot_2_vv ctx sg [x, y] b"
  unfolding dot_dppl_def
  by (simp add: ensure_dpnp_def assms(4) make_contiguous_contiguous2 [OF assms(1-3)] assms(1))

lemma dot_vv_run_overflow:
  fixes ctx sg b w k
  defines "s \<equiv> run ctx w (emitted b (snd (dot_dppl ctx sg [Arg 0, Arg 1] b))) (start k)"
  assumes sg: "sig_args sg = [Array da 1 la, Array db 1 lb]"
      and lay: "la \<noteq> LayoutA" "lb \<noteq> LayoutA"
      and ret: "fst (dot_dppl ctx sg [Arg 0, Arg 1] b) = Inr res"
      and av: "argv w = [VArr [n] d, VArr [n] d']"
      and big: "n > 2 ^ 31 - 1"
  shows "raised s = Some (OverflowError ''array size too large to fit in C int'')
       \<and> trace s = []"
proof -
  note imp = dot_dppl_importable [OF ret]
  note vv = dot_dppl_vv_contiguous [OF sg lay imp]
  show ?thesis
  proof (cases "get_dpnp_fn_ptr ctx ''dpnp_dot''
                  [name ctx da, name ctx db, name ctx (return_type sg)]")
    case None
    with sg imp have "\<exists>e. fst (dot_2_vv ctx sg [Arg 0, Arg 1] b) = Inl e"
      by (simp add: dot_2_vv_def lowering_simps)
    with ret vv show ?thesis by auto
  next
    case (Some fp)
    with sg imp av big show ?thesis
      unfolding s_def vv
      by (simp add: dot_2_vv_def lowering_simps)
         (simp add: run_simps dot_2_vv_check_args_def check_c_int_impl_def)
  qed
qed

lemma reduction_staging:
  fixes opn ctx sg b w k
  defines "lowered \<equiv> lower_builtin opn ctx sg [Arg 0] b"
  defines "s \<equiv> run ctx w (emitted b (snd lowered)) (start k)"
  assumes opn: "opn \<in> {Np_sum, Np_prod, Np_argmax, Np_argmin}"
      and sg: "sig_args sg = [Array dt nd lay]"
      and ret: "fst lowered = Inr res"
      and av: "argv w = [VArr sh d]"
      and ne: "prod_list sh \<noteq> 0"
  shows "staging_sizes (trace s) = [wrap64 (prod_list sh * int (abi_sizeof ctx dt))]"
proof -
  from opn consider "opn = Np_sum" | "opn = Np_prod" | "opn = Np_argmax" | "opn = Np_argmin"
    by auto
  then show ?thesis
  proof cases
    case 1
    with ret have r: "fst (array_sum ctx sg [Arg 0] b) = Inr res"
      by (simp add: lowered_def)
    from sum_prod_returns [OF r [unfolded array_sum_common [OF r]] sg]
         sum_prod_staging [OF sg _ _ av ne, of ctx "''dpnp_sum''" _ b k]
    show ?thesis
      by (auto simp: s_def lowered_def 1 array_sum_common [OF r])
  next
    case 2
    with ret have r: "fst (array_prod ctx sg [Arg 0] b) = Inr res"
      by (simp add: lowered_def)
    from sum_prod_returns [OF r [unfolded array_prod_common [OF r]] sg]
         sum_prod_staging [OF sg _ _ av ne, of ctx "''dpnp_prod''" _ b k]
    show ?thesis
      by (auto simp: s_def lowered_def 2 array_prod_common [OF r])
  next
    case 3
    with ret have r: "fst (array_argmax ctx sg [Arg 0] b) = Inr res"
      by (simp add: lowered_def)
    from argmax_argmin_returns [OF r [unfolded array_argmax_common [OF r]] sg]
         argmax_argmin_staging [OF sg _ _ av ne, of ctx "''dpnp_argmax''" _ b k]
    show ?thesis
      by (auto simp: s_def lowered_def 3 array_argmax_common [OF r])
  next
    case 4
    with ret have r: "fst (array_argmin ctx sg [Arg 0] b) = Inr res"
      by (simp add: lowered_def)
    from argmax_argmin_returns [OF r [unfolded array_argmin_common [OF r]] sg]
         argmax_argmin_staging [OF sg _ _ av ne, of ctx "''dpnp_argmax''" _ b k]
    show ?thesis
      by (auto simp: s_def lowered_def 4 array_argmin_common [OF r])
  qed
qed

text \<open>
  C7, as stated, fails: the byte size is the product of two 64-bit values and wraps
  around. For an operand of \<open>2\<^sup>6\<^sup>1\<close> elements of 8 bytes, \<open>N \<times> S = 2\<^sup>6\<^sup>4\<close>, and the code
  generated by the sum lowering passes the size 0 to the copy that stages it.
\<close>

theorem staging_copy_size_counterexample:
  "staging_sizes
     (trace (run ctx_ex (world_ex [VArr [2 ^ 61] 100])
               (emitted b_ex (snd (lower_builtin Np_sum ctx_ex sig_sum_f64 [Arg 0] b_ex)))
               (start 0)))
   = [0]
   \<and> prod_list [2 ^ 61] * int (abi_sizeof ctx_ex float64) = 2 ^ 64
   \<and> staging_sizes
     (trace (run ctx_ex (world_ex [VArr [2 ^ 61] 100])
               (emitted b_ex (snd (lower_builtin Np_sum ctx_ex sig_sum_f64 [Arg 0] b_ex)))
               (start 0)))
   \<noteq> [prod_list [2 ^ 61] * int (abi_sizeof ctx_ex float64)]"
proof -
  have h1: "Np_sum \<in> {Np_sum, Np_prod, Np_argmax, Np_argmin}" by simp
  have h2: "sig_args sig_sum_f64 = [Array float64 1 LayoutA]"
    by (simp add: sig_sum_f64_def)
  have h3: "fst (lower_builtin Np_sum ctx_ex sig_sum_f64 [Arg 0] b_ex) = Inr (Reg 33)"
    by (simp add: example_defs array_sum_def common_sum_prod_impl_def eval_simps)
  have h4: "argv (world_ex [VArr [2 ^ 61] 100]) = [VArr [2 ^ 61] 100]"
    by (simp add: world_ex_def)
  have h5: "prod_list [2 ^ 61] \<noteq> (0::int)" by simp
  have sz: "abi_sizeof ctx_ex float64 = 8"
    by (simp add: example_defs)
  have w: "wrap64 (prod_list [2 ^ 61] * int 8) = 0"
    by (simp add: wrap64_def)
  from reduction_staging [OF h1 h2 h3 h4 h5, of 0] show ?thesis
    unfolding sz w by simp
qed

text \<open>
  C7, amended. When sum, prod, argmax or argmin stages a non-empty operand of \<open>N\<close>
  elements of \<open>S\<close> bytes into a device buffer, the byte size passed to the copy is
  \<open>N \<times> S\<close> reduced to a signed 64-bit value; it equals \<open>N \<times> S\<close> whenever that product
  fits in 63 bits. No check precedes that copy. \<open>check_c_int\<close> rejects exactly the values
  above \<open>2\<^sup>3\<^sup>1 - 1\<close>; the vector by vector dot product applies it to the element count,
  so that on contiguous vectors of equal length above that bound the generated code
  raises \<^verbatim>\<open>OverflowError\<close> before it calls the backend.
\<close>

theorem staging_copy_size_wraps:
  fixes opn ctx sg b w k
  defines "lowered \<equiv> lower_builtin opn ctx sg [Arg 0] b"
  defines "s \<equiv> run ctx w (emitted b (snd lowered)) (start k)"
  assumes opn: "opn \<in> {Np_sum, Np_prod, Np_argmax, Np_argmin}"
      and sg: "sig_args sg = [Array dt nd lay]"
      and ret: "fst lowered = Inr res"
      and av: "argv w = [VArr sh d]"
      and ne: "prod_list sh \<noteq> 0"
  shows "staging_sizes (trace s) = [wrap64 (prod_list sh * int (abi_sizeof ctx dt))]
       \<and> (- (2 ^ 63) \<le> prod_list sh * int (abi_sizeof ctx dt)
          \<and> prod_list sh * int (abi_sizeof ctx dt) < 2 ^ 63 \<longrightarrow>
            staging_sizes (trace s) = [prod_list sh * int (abi_sizeof ctx dt)])
       \<and> (\<forall>n. (check_c_int_impl n
                 = Inl (OverflowError ''array size too large to fit in C int''))
               = (n > 2 ^ 31 - 1))
       \<and> (\<forall>sg' da la db lb b' res' w' n d1 d2 k'.
             sig_args sg' = [Array da 1 la, Array db 1 lb] \<and> la \<noteq> LayoutA \<and> lb \<noteq> LayoutA
             \<and> fst (dot_dppl ctx sg' [Arg 0, Arg 1] b') = Inr res'
             \<and> argv w' = [VArr [n] d1, VArr [n] d2] \<and> n > 2 ^ 31 - 1 \<longrightarrow>
             raised (run ctx w' (emitted b' (snd (dot_dppl ctx sg' [Arg 0, Arg 1] b')))
                       (start k'))
               = Some (OverflowError ''array size too large to fit in C int'')
             \<and> trace (run ctx w' (emitted b' (snd (dot_dppl ctx sg' [Arg 0, Arg 1] b')))
                        (start k'))
               = [])"
proof -
  have 1: "staging_sizes (trace s) = [wrap64 (prod_list sh * int (abi_sizeof ctx dt))]"
    unfolding s_def lowered_def
    by (rule reduction_staging [OF opn sg ret [unfolded lowered_def] av ne])
  have 2: "staging_sizes (trace s) = [prod_list sh * int (abi_sizeof ctx dt)]"
    if "- (2 ^ 63) \<le> prod_list sh * int (abi_sizeof ctx dt)"
       "prod_list sh * int (abi_sizeof ctx dt) < 2 ^ 63"
    using 1 wrap64_id [OF that] by simp
  from 1 2 check_c_int_impl_rejects dot_vv_run_overflow show ?thesis
    by blast
qed

theorem staging_copy_size_wraps_witness:
  "Np_sum \<in> {Np_sum, Np_prod, Np_argmax, Np_argmin}
   \<and> sig_args sig_sum_i32 = [Array int32 1 LayoutC]
   \<and> fst (lower_builtin Np_sum ctx_ex sig_sum_i32 [Arg 0] b_ex) = Inr (Reg 33)
   \<and> prod_list [3] \<noteq> (0::int)
   \<and> staging_sizes
         (trace (run ctx_ex (world_ex [VArr [3] 100])
                   (emitted b_ex (snd (lower_builtin Np_sum ctx_ex sig_sum_i32 [Arg 0] b_ex)))
                   (start 0)))
       = [12]
   \<and> check_c_int_impl (2 ^ 31) = Inl (OverflowError ''array size too large to fit in C int'')
   \<and> sig_args sig_vv = [Array float64 1 LayoutC, Array float64 1 LayoutC]
   \<and> fst (dot_dppl ctx_ex sig_vv [Arg 0, Arg 1] b_ex) = Inr (Reg 11)
   \<and> raised (run ctx_ex (world_ex [VArr [2 ^ 31] 100, VArr [2 ^ 31] 101])
                (emitted b_ex (snd (dot_dppl ctx_ex sig_vv [Arg 0, Arg 1] b_ex))) (start 0))
       = Some (OverflowError ''array size too large to fit in C int'')"
proof -
  have h1: "Np_sum \<in> {Np_sum, Np_prod, Np_argmax, Np_argmin}" by simp
  have h2: "sig_args sig_sum_i32 = [Array int32 1 LayoutC]"
    by (simp add: sig_sum_i32_def)
  have h3: "fst (lower_builtin Np_sum ctx_ex sig_sum_i32 [Arg 0] b_ex) = Inr (Reg 33)"
    by (simp add: example_defs array_sum_def common_sum_prod_impl_def eval_simps)
  have h4: "argv (world_ex [VArr [3] 100]) = [VArr [3] 100]"
    by (simp add: world_ex_def)
  have h5: "prod_list [3] \<noteq> (0::int)" by simp
  have sz: "prod_list [3] * int (abi_sizeof ctx_ex int32) = 12"
    by (simp add: example_defs)
  have fits: "- (2 ^ 63) \<le> (12::int) \<and> (12::int) < 2 ^ 63" by simp
  have d1: "sig_args sig_vv = [Array float64 1 LayoutC, Array float64 1 LayoutC]"
    by (simp add: sig_vv_def)
  have d2: "fst (dot_dppl ctx_ex sig_vv [Arg 0, Arg 1] b_ex) = Inr (Reg 11)"
    using dot_dppl_vv_contiguous [OF d1, of ctx_ex "Arg 0" "Arg 1" b_ex]
    by (simp add: example_defs dot_2_vv_def eval_simps)
  have d3: "argv (world_ex [VArr [2 ^ 31] 100, VArr [2 ^ 31] 101])
            = [VArr [2 ^ 31] 100, VArr [2 ^ 31] 101]"
    by (simp add: world_ex_def)
  have d4: "(2::int) ^ 31 > 2 ^ 31 - 1" by simp
  note inst = staging_copy_size_wraps [OF h1 h2 h3 h4 h5, of 0, unfolded sz]
  from inst fits have c1:
    "staging_sizes
         (trace (run ctx_ex (world_ex [VArr [3] 100])
                   (emitted b_ex (snd (lower_builtin Np_sum ctx_ex sig_sum_i32 [Arg 0] b_ex)))
                   (start 0)))
       = [12]"
    by blast
  from inst d4 have c2:
    "check_c_int_impl (2 ^ 31) = Inl (OverflowError ''array size too large to fit in C int'')"
    by blast
  have la: "LayoutC \<noteq> LayoutA" by simp
  note dotpart = inst [THEN conjunct2, THEN conjunct2, THEN conjunct2, rule_format,
      OF conjI [OF d1 conjI [OF la conjI [OF la conjI [OF d2 conjI [OF d3 d4]]]]]]
  have c3:
    "raised (run ctx_ex (world_ex [VArr [2 ^ 31] 100, VArr [2 ^ 31] 101])
                (emitted b_ex (snd (dot_dppl ctx_ex sig_vv [Arg 0, Arg 1] b_ex))) (start 0))
       = Some (OverflowError ''array size too large to fit in C int'')"
    by (rule dotpart [THEN conjunct1])
  from h1 h2 h3 h5 c1 c2 d1 d2 c3 show ?thesis by blast
qed

section \<open>Covariance\<close>

lemma cov_other_rank:
  assumes "sig_args sg = [Array dt nd lay]" and "nd \<noteq> 1" and "nd \<noteq> 2"
  shows "array_cov ctx sg [Arg 0] b
         = (if dpnp_importable ctx then (Inl (UnboundLocalError ''out''), b)
            else (Inl (ImportError ''dpNP is needed to call np.cov''), b))"
  using assms by (simp add: array_cov_def ensure_dpnp_def item_def)

lemma cov_not_importable:
  assumes "\<not> dpnp_importable ctx"
  shows "array_cov ctx sg args b = (Inl (ImportError ''dpNP is needed to call np.cov''), b)"
  using assms by (simp add: array_cov_def ensure_dpnp_def)

lemma cov_unresolved:
  assumes "sig_args sg = [Array dt nd lay]" and "nd = 1 \<or> nd = 2" and "dpnp_importable ctx"
      and "get_dpnp_fn_ptr ctx ''dpnp_cov'' [name ctx dt, name ctx (return_type sg)] = None"
  shows "fst (array_cov ctx sg [Arg 0] b)
         = Inl (UnsupportedTypeCombination ''dpnp_cov'' [name ctx dt, name ctx (return_type sg)])"
  using assms(2)
proof
  assume "nd = 1"
  with assms(1,3,4) show ?thesis
    by (simp add: array_cov_def ensure_dpnp_def lowering_simps)
next
  assume "nd = 2"
  with assms(1,3,4) show ?thesis
    by (simp add: array_cov_def ensure_dpnp_def lowering_simps upt_2)
qed

lemma cov_ill_typed_1d:
  assumes "sig_args sg = [Array dt 1 lay]" and "dpnp_importable ctx"
      and "get_dpnp_fn_ptr ctx ''dpnp_cov'' [name ctx dt, name ctx (return_type sg)] = Some fp"
  shows "array_cov ctx sg [Arg 0] b
         = (Inl (TypeError ''Type of arg mismatch''),
            extend (b\<lparr>lookups := lookups b
                        @ [(''dpnp_cov'', [name ctx dt, name ctx (return_type sg)])]\<rparr>) 6
              [CallInternal (fresh b) Cov_make_1D_res [ArrDim (Arg 0) 0],
               Alloca (fresh b + 1) (LLValue int64),
               Alloca (fresh b + 2) (LLValue int64),
               Store (Const int64 1) (Reg (fresh b + 1)),
               Store (ArrDim (Arg 0) 0) (Reg (fresh b + 2)),
               Bitcast (fresh b + 3) (ArrData (Arg 0)) LLPtr,
               Bitcast (fresh b + 4) (ArrData (Reg (fresh b))) LLPtr,
               IntToPtr (fresh b + 5) (Const int64 fp)])"
  using assms
  by (simp add: array_cov_def ensure_dpnp_def lowering_simps int64_def)
     (simp add: extend_def)

lemma cov_ill_typed_2d:
  assumes "sig_args sg = [Array dt 2 lay]" and "dpnp_importable ctx"
      and "get_dpnp_fn_ptr ctx ''dpnp_cov'' [name ctx dt, name ctx (return_type sg)] = Some fp"
  shows "array_cov ctx sg [Arg 0] b
         = (Inl (TypeError ''Type of arg mismatch''),
            extend (b\<lparr>lookups := lookups b
                        @ [(''dpnp_cov'', [name ctx dt, name ctx (return_type sg)])]\<rparr>) 6
              [CallInternal (fresh b) Cov_make_2D_res [ArrDim (Arg 0) 0],
               Alloca (fresh b + 1) (LLValue int64),
               Alloca (fresh b + 2) (LLValue int64),
               Store (ArrDim (Arg 0) 0) (Reg (fresh b + 1)),
               Store (ArrDim (Arg 0) 1) (Reg (fresh b + 2)),
               Bitcast (fresh b + 3) (ArrData (Arg 0)) LLPtr,
               Bitcast (fresh b + 4) (ArrData (Reg (fresh b))) LLPtr,
               IntToPtr (fresh b + 5) (Const int64 fp)])"
  using assms
  by (simp add: array_cov_def ensure_dpnp_def lowering_simps int64_def upt_2)
     (simp add: extend_def)

lemma cov_never_returns:
  assumes sg: "sig_args sg = [Array dt nd lay]"
  shows "\<exists>e. fst (array_cov ctx sg [Arg 0] b) = Inl e"
proof (cases "dpnp_importable ctx")
  case False
  then show ?thesis by (simp add: cov_not_importable)
next
  case imp: True
  show ?thesis
  proof (cases "nd = 1 \<or> nd = 2")
    case False
    then show ?thesis by (simp add: cov_other_rank [OF sg] imp)
  next
    case rank: True
    show ?thesis
    proof (cases "get_dpnp_fn_ptr ctx ''dpnp_cov'' [name ctx dt, name ctx (return_type sg)]")
      case None
      from cov_unresolved [OF sg rank imp None] show ?thesis by simp
    next
      case (Some fp)
      from rank show ?thesis
      proof
        assume "nd = 1"
        with cov_ill_typed_1d [OF _ imp Some, of lay b] sg show ?thesis by simp
      next
        assume "nd = 2"
        with cov_ill_typed_2d [OF _ imp Some, of lay b] sg show ?thesis by simp
      qed
    qed
  qed
qed

text \<open>
  C6. The claim fails for every rank. For cov on a vector of length 5 and on a
  \<open>5 \<times> 7\<close> matrix, with the backend importable and the symbol resolved, the lowering
  returns no result: it compiles in \<^verbatim>\<open>make_1D_res\<close> or \<^verbatim>\<open>make_2D_res\<close>, which would
  allocate the \<open>(1)\<close> and \<open>(5, 5)\<close> arrays the claim describes, and then passes the two
  stack slots \<^verbatim>\<open>nrows\<close> and \<^verbatim>\<open>ncols\<close>, unloaded, to a call whose third and fourth
  parameters are declared as 64-bit integers, so building the call raises
  \<^verbatim>\<open>TypeError\<close> and nothing is returned. For rank 3 the lowering has no error of its
  own: it ends in \<^verbatim>\<open>UnboundLocalError\<close> at the read of \<^verbatim>\<open>out\<close>, with nothing emitted.
\<close>

theorem cov_returns_no_result:
  "fst (array_cov ctx_ex (sig_cov 1) [Arg 0] b_ex) = Inl (TypeError ''Type of arg mismatch'')
   \<and> emitted b_ex (snd (array_cov ctx_ex (sig_cov 1) [Arg 0] b_ex))
       = [CallInternal 3 Cov_make_1D_res [ArrDim (Arg 0) 0],
          Alloca 4 (LLValue int64), Alloca 5 (LLValue int64),
          Store (Const int64 1) (Reg 4), Store (ArrDim (Arg 0) 0) (Reg 5),
          Bitcast 6 (ArrData (Arg 0)) LLPtr, Bitcast 7 (ArrData (Reg 3)) LLPtr,
          IntToPtr 8 (Const int64 4096)]
   \<and> make_1D_res 5 = Inr (NpEmpty [1])
   \<and> fst (array_cov ctx_ex (sig_cov 2) [Arg 0] b_ex) = Inl (TypeError ''Type of arg mismatch'')
   \<and> emitted b_ex (snd (array_cov ctx_ex (sig_cov 2) [Arg 0] b_ex))
       = [CallInternal 3 Cov_make_2D_res [ArrDim (Arg 0) 0],
          Alloca 4 (LLValue int64), Alloca 5 (LLValue int64),
          Store (ArrDim (Arg 0) 0) (Reg 4), Store (ArrDim (Arg 0) 1) (Reg 5),
          Bitcast 6 (ArrData (Arg 0)) LLPtr, Bitcast 7 (ArrData (Reg 3)) LLPtr,
          IntToPtr 8 (Const int64 4096)]
   \<and> make_2D_res 5 = Inr (NpEmpty [5, 5])
   \<and> map (operand_type (value_types (snd (array_cov ctx_ex (sig_cov 2) [Arg 0] b_ex))))
         [Reg 6, Reg 7, Reg 4, Reg 5]
       = [Some LLPtr, Some LLPtr, Some (LLPointer (LLValue int64)),
          Some (LLPointer (LLValue int64))]
   \<and> array_cov ctx_ex (sig_cov 3) [Arg 0] b_ex = (Inl (UnboundLocalError ''out''), b_ex)"
proof -
  have s1: "sig_args (sig_cov 1) = [Array float64 1 LayoutC]"
    and s2: "sig_args (sig_cov 2) = [Array float64 2 LayoutC]"
    and s3: "sig_args (sig_cov 3) = [Array float64 3 LayoutC]"
    by (simp_all add: sig_cov_def)
  have imp: "dpnp_importable ctx_ex" by (simp add: ctx_ex_def)
  have fp: "get_dpnp_fn_ptr ctx_ex ''dpnp_cov''
              [name ctx_ex float64, name ctx_ex (return_type (sig_cov nd))] = Some 4096" for nd
    by (simp add: ctx_ex_def)
  have fr: "fresh b_ex = 3" by (simp add: b_ex_def)
  note c1 = cov_ill_typed_1d [OF s1 imp fp, of b_ex]
  note c2 = cov_ill_typed_2d [OF s2 imp fp, of b_ex]
  have 1: "fst (array_cov ctx_ex (sig_cov 1) [Arg 0] b_ex) = Inl (TypeError ''Type of arg mismatch'')"
    unfolding c1 by simp
  have 2: "emitted b_ex (snd (array_cov ctx_ex (sig_cov 1) [Arg 0] b_ex))
       = [CallInternal 3 Cov_make_1D_res [ArrDim (Arg 0) 0],
          Alloca 4 (LLValue int64), Alloca 5 (LLValue int64),
          Store (Const int64 1) (Reg 4), Store (ArrDim (Arg 0) 0) (Reg 5),
          Bitcast 6 (ArrData (Arg 0)) LLPtr, Bitcast 7 (ArrData (Reg 3)) LLPtr,
          IntToPtr 8 (Const int64 4096)]"
    unfolding c1 by (simp add: emitted_extend_lookups fr)
  have 3: "make_1D_res 5 = Inr (NpEmpty [1])" by (simp add: make_1D_res_def)
  have 4: "fst (array_cov ctx_ex (sig_cov 2) [Arg 0] b_ex) = Inl (TypeError ''Type of arg mismatch'')"
    unfolding c2 by simp
  have 5: "emitted b_ex (snd (array_cov ctx_ex (sig_cov 2) [Arg 0] b_ex))
       = [CallInternal 3 Cov_make_2D_res [ArrDim (Arg 0) 0],
          Alloca 4 (LLValue int64), Alloca 5 (LLValue int64),
          Store (ArrDim (Arg 0) 0) (Reg 4), Store (ArrDim (Arg 0) 1) (Reg 5),
          Bitcast 6 (ArrData (Arg 0)) LLPtr, Bitcast 7 (ArrData (Reg 3)) LLPtr,
          IntToPtr 8 (Const int64 4096)]"
    unfolding c2 by (simp add: emitted_extend_lookups fr)
  have 6: "make_2D_res 5 = Inr (NpEmpty [5, 5])" by (simp add: make_2D_res_def)
  have 7: "map (operand_type (value_types (snd (array_cov ctx_ex (sig_cov 2) [Arg 0] b_ex))))
         [Reg 6, Reg 7, Reg 4, Reg 5]
       = [Some LLPtr, Some LLPtr, Some (LLPointer (LLValue int64)),
          Some (LLPointer (LLValue int64))]"
    unfolding c2 by (simp add: value_types_extend value_types_lookups fr)
  have 8: "array_cov ctx_ex (sig_cov 3) [Arg 0] b_ex = (Inl (UnboundLocalError ''out''), b_ex)"
    by (simp add: cov_other_rank [OF s3] imp)
  from 1 2 3 4 5 6 7 8 show ?thesis by blast
qed

section \<open>Release of the temporary copies\<close>

lemma copy_regs_append: "copy_regs (xs @ ys) = copy_regs xs @ copy_regs ys"
  by (induction xs rule: copy_regs.induct) simp_all

lemma make_contiguous_release_code:
  "make_contiguous_release cs b = b\<lparr>code := code b @ map (\<lambda>(ty, val). Decref val) cs\<rparr>"
proof (induction cs arbitrary: b)
  case Nil
  show ?case by simp
next
  case (Cons c cs)
  obtain ty v where c: "c = (ty, v)" by (cases c)
  show ?case unfolding c by (simp add: Cons decref_def)
qed

lemma make_contiguous_loop_copies:
  "make_contiguous_loop zs b = ((tys, vals, cs), b1) \<Longrightarrow>
   \<exists>ys. code b1 = code b @ ys \<and> copy_regs ys = map snd cs"
proof (induction zs arbitrary: b tys vals cs b1)
  case Nil
  then show ?case by simp
next
  case (Cons z zs)
  obtain ty v where z: "z = (ty, v)" by (cases z)
  show ?case
  proof (cases "\<not> is_Array ty \<or> layout ty \<in> {LayoutC, LayoutF}")
    case True
    obtain tys' vals' cs' b' where rec: "make_contiguous_loop zs b = ((tys', vals', cs'), b')"
      by (metis prod.exhaust)
    with Cons.prems True z have "cs = cs'" "b1 = b'" by simp_all
    with Cons.IH [OF rec] show ?thesis by simp
  next
    case False
    let ?b = "extend b 1 [ArrayCopy (fresh b) v]"
    obtain tys' vals' cs' b' where rec: "make_contiguous_loop zs ?b = ((tys', vals', cs'), b')"
      by (metis prod.exhaust)
    with Cons.prems False z
    have eq: "cs = (Array (dtype ty) (ndim ty) LayoutC, Reg (fresh b)) # cs'" "b1 = b'"
      by (simp_all add: array_copy_def emit_extend Let_def)
    from Cons.IH [OF rec] obtain ys where "code b' = code ?b @ ys" "copy_regs ys = map snd cs'"
      by blast
    then have "code b1 = code b @ (ArrayCopy (fresh b) v # ys)
               \<and> copy_regs (ArrayCopy (fresh b) v # ys) = map snd cs"
      using eq by (simp add: code_extend)
    then show ?thesis by blast
  qed
qed

text \<open>
  C2, amended. The temporary copies that \<open>make_contiguous\<close> substitutes are exactly the
  results of the \<^verbatim>\<open>array_copy\<close> calls it emits. When the body of the \<^verbatim>\<open>with\<close> block
  completes normally, one \<^verbatim>\<open>decref\<close> per copy is emitted after the body's code, in the
  order of the copies. When the body exits with an error, the error is passed on and
  nothing is emitted after the body: no release.
\<close>

theorem make_contiguous_releases_on_normal_exit:
  assumes loop: "make_contiguous_loop (zip (sig_args sg) args) b = ((newtys, newargs, copies), b1)"
  shows "map snd copies = copy_regs (emitted b b1)
       \<and> (\<forall>v b2. body \<lparr>return_type = return_type sg, sig_args = newtys\<rparr> newargs b1 = (Inr v, b2)
              \<longrightarrow> make_contiguous sg args body b
                  = (Inr v, b2\<lparr>code := code b2 @ map Decref (map snd copies)\<rparr>))
       \<and> (\<forall>e b2. body \<lparr>return_type = return_type sg, sig_args = newtys\<rparr> newargs b1 = (Inl e, b2)
              \<longrightarrow> make_contiguous sg args body b = (Inl e, b2))"
proof -
  from make_contiguous_loop_copies [OF loop] have 1: "map snd copies = copy_regs (emitted b b1)"
    by (auto simp: emitted_def)
  have m: "map (\<lambda>(ty, val). Decref val) copies = map Decref (map snd copies)"
    by (simp add: split_beta comp_def)
  have 2: "make_contiguous sg args body b
           = (Inr v, b2\<lparr>code := code b2 @ map Decref (map snd copies)\<rparr>)"
    if "body \<lparr>return_type = return_type sg, sig_args = newtys\<rparr> newargs b1 = (Inr v, b2)"
    for v b2
    using that loop by (simp add: make_contiguous_def make_contiguous_release_code m)
  have 3: "make_contiguous sg args body b = (Inl e, b2)"
    if "body \<lparr>return_type = return_type sg, sig_args = newtys\<rparr> newargs b1 = (Inl e, b2)"
    for e b2
    using that loop by (simp add: make_contiguous_def)
  from 1 2 3 show ?thesis by blast
qed

theorem make_contiguous_releases_on_normal_exit_witness:
  "make_contiguous_loop (zip (sig_args sig_mm_strided) [Arg 0, Arg 1]) b_ex
     = (([Array float64 2 LayoutC, Array float64 2 LayoutC], [Reg 3, Arg 1],
         [(Array float64 2 LayoutC, Reg 3)]),
        extend b_ex 1 [ArrayCopy 3 (Arg 0)])
   \<and> copy_regs (emitted b_ex (extend b_ex 1 [ArrayCopy 3 (Arg 0)])) = [Reg 3]
   \<and> make_contiguous sig_mm_strided [Arg 0, Arg 1] (\<lambda>sg args b. (Inr (Reg 0) :: error + operand, b)) b_ex
       = (Inr (Reg 0),
          (extend b_ex 1 [ArrayCopy 3 (Arg 0)])
            \<lparr>code := code (extend b_ex 1 [ArrayCopy 3 (Arg 0)]) @ [Decref (Reg 3)]\<rparr>)
   \<and> make_contiguous sig_mm_strided [Arg 0, Arg 1] (\<lambda>sg args b. (Inl AssertionError :: error + operand, b)) b_ex
       = (Inl AssertionError, extend b_ex 1 [ArrayCopy 3 (Arg 0)])"
proof -
  have loop: "make_contiguous_loop (zip (sig_args sig_mm_strided) [Arg 0, Arg 1]) b_ex
     = (([Array float64 2 LayoutC, Array float64 2 LayoutC], [Reg 3, Arg 1],
         [(Array float64 2 LayoutC, Reg 3)]),
        extend b_ex 1 [ArrayCopy 3 (Arg 0)])"
    by (simp add: sig_mm_strided_def float64_def b_ex_def array_copy_def emit_extend Let_def)
  note ok = make_contiguous_releases_on_normal_exit
              [OF loop, where body = "\<lambda>sg args b. (Inr (Reg 0), b)"]
  note err = make_contiguous_releases_on_normal_exit
              [OF loop, where body = "\<lambda>sg args b. (Inl AssertionError, b)"]
  from ok [THEN conjunct1, symmetric]
  have c1: "copy_regs (emitted b_ex (extend b_ex 1 [ArrayCopy 3 (Arg 0)])) = [Reg 3]"
    by simp
  from ok [THEN conjunct2, THEN conjunct1, rule_format, OF refl] have c2:
    "make_contiguous sig_mm_strided [Arg 0, Arg 1] (\<lambda>sg args b. (Inr (Reg 0) :: error + operand, b)) b_ex
       = (Inr (Reg 0),
          (extend b_ex 1 [ArrayCopy 3 (Arg 0)])
            \<lparr>code := code (extend b_ex 1 [ArrayCopy 3 (Arg 0)]) @ [Decref (Reg 3)]\<rparr>)"
    by simp
  from err [THEN conjunct2, THEN conjunct2, rule_format, OF refl] have c3:
    "make_contiguous sig_mm_strided [Arg 0, Arg 1] (\<lambda>sg args b. (Inl AssertionError :: error + operand, b)) b_ex
       = (Inl AssertionError, extend b_ex 1 [ArrayCopy 3 (Arg 0)])"
    by simp
  from loop c1 c2 c3 show ?thesis by blast
qed

text \<open>
  C2, as stated, fails on the error path. At lowering time: dot on two strided operands
  of rank 3 copies both, then fails its assertion, and nothing but the two copies has
  been emitted. At run time: dot on a strided \<open>2 \<times> 3\<close> and a \<open>4 \<times> 5\<close> matrix copies the
  first operand, the shape check raises, and the trace ends with the copy still held.
\<close>

theorem make_contiguous_release_counterexample:
  "fst (dot_dppl ctx_ex sig_rank3_strided [Arg 0, Arg 1] b_ex) = Inl AssertionError
   \<and> emitted b_ex (snd (dot_dppl ctx_ex sig_rank3_strided [Arg 0, Arg 1] b_ex))
       = [ArrayCopy 3 (Arg 0), ArrayCopy 4 (Arg 1)]
   \<and> fst (dot_dppl ctx_ex sig_mm_strided [Arg 0, Arg 1] b_ex) = Inr (Reg 4)
   \<and> raised (run ctx_ex (world_ex [VArr [2, 3] 100, VArr [4, 5] 101])
                (emitted b_ex (snd (dot_dppl ctx_ex sig_mm_strided [Arg 0, Arg 1] b_ex)))
                (start 0))
       = Some (ValueError ''incompatible array sizes for np.dot(a, b)'')
   \<and> trace (run ctx_ex (world_ex [VArr [2, 3] 100, VArr [4, 5] 101])
               (emitted b_ex (snd (dot_dppl ctx_ex sig_mm_strided [Arg 0, Arg 1] b_ex)))
               (start 0))
       = [CopyArray 100 0]"
proof -
  have l3: "make_contiguous_loop (zip (sig_args sig_rank3_strided) [Arg 0, Arg 1]) b_ex
     = (([Array float64 3 LayoutC, Array float64 3 LayoutC], [Reg 3, Reg 4],
         [(Array float64 3 LayoutC, Reg 3), (Array float64 3 LayoutC, Reg 4)]),
        extend b_ex 2 [ArrayCopy 3 (Arg 0), ArrayCopy 4 (Arg 1)])"
    by (simp add: sig_rank3_strided_def float64_def b_ex_def array_copy_def emit_extend Let_def
        extend_extend fresh_extend)
       (simp add: extend_def)
  have d3: "dot_dppl ctx_ex sig_rank3_strided [Arg 0, Arg 1] b_ex
            = (Inl AssertionError, extend b_ex 2 [ArrayCopy 3 (Arg 0), ArrayCopy 4 (Arg 1)])"
    unfolding dot_dppl_def make_contiguous_def l3
    by (simp add: ensure_dpnp_def ctx_ex_def)
  have l2: "make_contiguous_loop (zip (sig_args sig_mm_strided) [Arg 0, Arg 1]) b_ex
     = (([Array float64 2 LayoutC, Array float64 2 LayoutC], [Reg 3, Arg 1],
         [(Array float64 2 LayoutC, Reg 3)]),
        extend b_ex 1 [ArrayCopy 3 (Arg 0)])"
    by (simp add: sig_mm_strided_def float64_def b_ex_def array_copy_def emit_extend Let_def)
  have d2: "dot_dppl ctx_ex sig_mm_strided [Arg 0, Arg 1] b_ex
            = (Inr (Reg 4),
               extend (b_ex\<lparr>lookups := [(''dpnp_matmul'', [''float64'', ''array''])]\<rparr>) 7
                 [ArrayCopy 3 (Arg 0), CallInternal 4 Dot_mm_make_res [Reg 3, Arg 1],
                  Bitcast 5 (ArrData (Reg 3)) LLPtr, Bitcast 6 (ArrData (Arg 1)) LLPtr,
                  Bitcast 7 (ArrData (Reg 4)) LLPtr, IntToPtr 8 (Const int64 4096),
                  CallPtr 9 (Reg 8)
                    [Reg 5, Reg 6, Reg 7, ArrDim (Reg 3) 0, ArrDim (Reg 3) 1, ArrDim (Arg 1) 1],
                  Decref (Reg 3)])"
    unfolding dot_dppl_def make_contiguous_def l2
    by (simp add: ensure_dpnp_def dot_2_mm_def lowering_simps upt_2 ctx_ex_def)
       (simp add: ctx_ex_def b_ex_def sig_mm_strided_def float64_def extend_def decref_def)
  have r2: "run ctx_ex (world_ex [VArr [2, 3] 100, VArr [4, 5] 101])
                (emitted b_ex (snd (dot_dppl ctx_ex sig_mm_strided [Arg 0, Arg 1] b_ex)))
                (start 0)
            = \<lparr>regs = [3 \<mapsto> VArr [2, 3] 0], slots = Map.empty, trace = [CopyArray 100 0],
               next_id = 1,
               raised = Some (ValueError ''incompatible array sizes for np.dot(a, b)'')\<rparr>"
    unfolding d2
    by (simp add: emitted_extend_lookups)
       (simp add: run_simps world_ex_def dot_2_mm_make_res_def)
  from d3 d2 r2 show ?thesis
    by (simp add: emitted_extend emitted_extend_lookups)
qed

section \<open>Shape validation in the binary operations\<close>

lemma dot_dppl_contiguous2:
  assumes "sig_args sg = [Array da na la, Array db nb lb]"
      and "la \<noteq> LayoutA" and "lb \<noteq> LayoutA" and "dpnp_importable ctx"
  shows "dot_dppl ctx sg [x, y] b =
           (if [na, nb] = [2, 2] then dot_2_mm ctx sg [x, y] b
            else if [na, nb] = [2, 1] then dot_2_mv ctx sg [x, y] b
            else if [na, nb] = [1, 2] then dot_2_vm ctx sg [x, y] b
            else if [na, nb] = [1, 1] then dot_2_vv ctx sg [x, y] b
            else (Inl AssertionError, b))"
  unfolding dot_dppl_def
  by (simp add: ensure_dpnp_def assms(4) make_contiguous_contiguous2 [OF assms(1-3)] assms(1)
      Let_def del: One_nat_def)

text \<open>
  C3. The claim holds for dot: on a \<open>2 \<times> 3\<close> and a \<open>4 \<times> 5\<close> matrix the generated code
  raises the \<^verbatim>\<open>ValueError\<close> of the shape check and has allocated nothing. For matmul the
  same operands never reach the shape check that \<open>matmul_dppl\<close> contains: the lowering
  ends in \<^verbatim>\<open>NameError\<close> and has emitted no shape check, although the check, had it run,
  would have rejected the shapes.
\<close>

theorem matmul_shape_mismatch_not_signalled:
  "fst (matmul_dppl ctx_ex sig_mm [Arg 0, Arg 1] b_ex) = Inl (NameError ''sycl_queue'')
   \<and> \<not> list_ex is_shape_check (emitted b_ex (snd (matmul_dppl ctx_ex sig_mm [Arg 0, Arg 1] b_ex)))
   \<and> matmul_make_res [2, 3] [4, 5]
       = Inl (ValueError ''incompatible array sizes for np.matmul(a, b)'')
   \<and> fst (dot_dppl ctx_ex sig_mm [Arg 0, Arg 1] b_ex) = Inr (Reg 3)
   \<and> raised (run ctx_ex (world_ex [VArr [2, 3] 100, VArr [4, 5] 101])
                (emitted b_ex (snd (dot_dppl ctx_ex sig_mm [Arg 0, Arg 1] b_ex))) (start 0))
       = Some (ValueError ''incompatible array sizes for np.dot(a, b)'')
   \<and> trace (run ctx_ex (world_ex [VArr [2, 3] 100, VArr [4, 5] 101])
               (emitted b_ex (snd (dot_dppl ctx_ex sig_mm [Arg 0, Arg 1] b_ex))) (start 0))
       = []"
proof -
  have sg: "sig_args sig_mm = [Array float64 2 LayoutC, Array float64 2 LayoutC]"
    by (simp add: sig_mm_def)
  have imp: "dpnp_importable ctx_ex" by (simp add: ctx_ex_def)
  have l: "LayoutC \<noteq> LayoutA" by simp
  have m: "matmul_dppl ctx_ex sig_mm [Arg 0, Arg 1] b_ex
           = (Inl (NameError ''sycl_queue''),
              extend b_ex 4
                [Alloca 3 (LLInt 64),
                 Mul 4 (ArrNitems (Arg 0))
                   (Const intp (int (abi_sizeof ctx_ex (Array float64 2 LayoutC)))),
                 Sext 5 (Reg 4) (LLInt 64), Store (Reg 5) (Reg 3), Load 6 (Reg 3)])"
    unfolding matmul_dppl_def
    by (simp add: ensure_dpnp_def imp make_contiguous_contiguous2 [OF sg l l] sg lowering_simps
        upt_2 module_global_sycl_queue)
       (simp add: b_ex_def extend_def)
  have 1: "fst (matmul_dppl ctx_ex sig_mm [Arg 0, Arg 1] b_ex) = Inl (NameError ''sycl_queue'')"
    and 2: "\<not> list_ex is_shape_check
               (emitted b_ex (snd (matmul_dppl ctx_ex sig_mm [Arg 0, Arg 1] b_ex)))"
    unfolding m by (simp_all add: emitted_extend)
  have 3: "matmul_make_res [2, 3] [4, 5]
           = Inl (ValueError ''incompatible array sizes for np.matmul(a, b)'')"
    by (simp add: matmul_make_res_def)
  have d: "dot_dppl ctx_ex sig_mm [Arg 0, Arg 1] b_ex
           = (Inr (Reg 3),
              extend (b_ex\<lparr>lookups := [(''dpnp_matmul'', [''float64'', ''array''])]\<rparr>) 6
                [CallInternal 3 Dot_mm_make_res [Arg 0, Arg 1],
                 Bitcast 4 (ArrData (Arg 0)) LLPtr, Bitcast 5 (ArrData (Arg 1)) LLPtr,
                 Bitcast 6 (ArrData (Reg 3)) LLPtr, IntToPtr 7 (Const int64 4096),
                 CallPtr 8 (Reg 7)
                   [Reg 4, Reg 5, Reg 6, ArrDim (Arg 0) 0, ArrDim (Arg 0) 1, ArrDim (Arg 1) 1]])"
    unfolding dot_dppl_contiguous2 [OF sg l l imp]
    by (simp add: dot_2_mm_def sg lowering_simps upt_2 ctx_ex_def)
       (simp add: ctx_ex_def b_ex_def sig_mm_def float64_def extend_def)
  have 4: "fst (dot_dppl ctx_ex sig_mm [Arg 0, Arg 1] b_ex) = Inr (Reg 3)"
    unfolding d by simp
  have r: "run ctx_ex (world_ex [VArr [2, 3] 100, VArr [4, 5] 101])
                (emitted b_ex (snd (dot_dppl ctx_ex sig_mm [Arg 0, Arg 1] b_ex))) (start 0)
           = (start 0)\<lparr>raised := Some (ValueError ''incompatible array sizes for np.dot(a, b)'')\<rparr>"
    unfolding d
    by (simp add: emitted_extend_lookups)
       (simp add: run_simps world_ex_def dot_2_mm_make_res_def)
  from 1 2 3 4 show ?thesis unfolding r by (simp add: start_def)
qed

text \<open>
  C5. On a \<open>2 \<times> 3\<close> matrix and a vector of length 3, where the inner dimensions agree,
  the generated code of the matrix by vector dot product raises the \<^verbatim>\<open>ValueError\<close> of
  its shape check and allocates no result: \<^verbatim>\<open>make_res\<close> compares the whole shape tuple
  of the vector with the integer \<open>n\<close>, and a tuple never equals an integer.
\<close>

theorem dot_matrix_vector_always_rejects:
  "fst (dot_dppl ctx_ex sig_mv [Arg 0, Arg 1] b_ex) = Inr (Reg 3)
   \<and> dot_2_mv_make_res [2, 3] [3] = Inl (ValueError ''incompatible array sizes for np.dot(a, b)'')
   \<and> raised (run ctx_ex (world_ex [VArr [2, 3] 100, VArr [3] 101])
                (emitted b_ex (snd (dot_dppl ctx_ex sig_mv [Arg 0, Arg 1] b_ex))) (start 0))
       = Some (ValueError ''incompatible array sizes for np.dot(a, b)'')
   \<and> trace (run ctx_ex (world_ex [VArr [2, 3] 100, VArr [3] 101])
               (emitted b_ex (snd (dot_dppl ctx_ex sig_mv [Arg 0, Arg 1] b_ex))) (start 0))
       = []"
proof -
  have sg: "sig_args sig_mv = [Array float64 2 LayoutC, Array float64 1 LayoutC]"
    by (simp add: sig_mv_def)
  have imp: "dpnp_importable ctx_ex" by (simp add: ctx_ex_def)
  have l: "LayoutC \<noteq> LayoutA" by simp
  have d: "dot_dppl ctx_ex sig_mv [Arg 0, Arg 1] b_ex
           = (Inr (Reg 3),
              extend (b_ex\<lparr>lookups := [(''dpnp_matmul'', [''float64'', ''array''])]\<rparr>) 6
                [CallInternal 3 Dot_mv_make_res [Arg 0, Arg 1],
                 Bitcast 4 (ArrData (Arg 0)) LLPtr, Bitcast 5 (ArrData (Arg 1)) LLPtr,
                 Bitcast 6 (ArrData (Reg 3)) LLPtr, IntToPtr 7 (Const int64 4096),
                 CallPtr 8 (Reg 7)
                   [Reg 4, Reg 5, Reg 6, ArrDim (Arg 0) 0, ArrDim (Arg 0) 1, Const int64 1]])"
    unfolding dot_dppl_contiguous2 [OF sg l l imp]
    by (simp add: dot_2_mv_def sg lowering_simps upt_2 ctx_ex_def int64_def)
       (simp add: ctx_ex_def b_ex_def sig_mv_def float64_def extend_def)
  have 1: "fst (dot_dppl ctx_ex sig_mv [Arg 0, Arg 1] b_ex) = Inr (Reg 3)"
    unfolding d by simp
  have 2: "dot_2_mv_make_res [2, 3] [3]
           = Inl (ValueError ''incompatible array sizes for np.dot(a, b)'')"
    by (simp add: dot_2_mv_make_res_def)
  have r: "run ctx_ex (world_ex [VArr [2, 3] 100, VArr [3] 101])
                (emitted b_ex (snd (dot_dppl ctx_ex sig_mv [Arg 0, Arg 1] b_ex))) (start 0)
           = (start 0)\<lparr>raised := Some (ValueError ''incompatible array sizes for np.dot(a, b)'')\<rparr>"
    unfolding d
    by (simp add: emitted_extend_lookups)
       (simp add: run_simps world_ex_def dot_2_mv_make_res_def)
  from 1 2 show ?thesis unfolding r by (simp add: start_def)
qed

end
